theory Spec2Isabelle
  imports Main "HOL-Library.Multiset"
begin

section \<open>Data model\<close>

text \<open>
  The stored entities of \<^verbatim>\<open>app/models/question.py\<close> and
  \<^verbatim>\<open>app/models/question_bank.py\<close>. Nullable columns are options. The two
  timestamp columns are left out: no operation below reads them. Of the user model only
  the primary key is read (\<^verbatim>\<open>current_user.id\<close>).
\<close>

record question =
  q_id :: int
  q_question :: string
  q_answer :: "string option"
  q_level :: "string option"
  q_type :: "string option"
  q_options :: "string option"
  q_context :: "string option"
  q_bank_id :: "int option"

record question_bank =
  b_id :: int
  b_name :: string
  b_description :: "string option"
  b_user_id :: "int option"

record user =
  u_id :: int

text \<open>The database session: the two tables, rows in insertion order.\<close>

record db =
  questions :: "question list"
  question_banks :: "question_bank list"

text \<open>
  Every \<^verbatim>\<open>HTTPException\<close> the endpoints raise, one constructor per raise site;
  \<open>QuotaMismatch\<close> carries the two totals that the source formats into its detail string.
\<close>

datatype http_error =
    NoQuestionsSelected
  | QuotaMismatch int int
  | NoValidQuestions
  | InternalError
  | DuplicateBankName string
  | BankNotFound
  | Forbidden
  | NoQuestionIds
  | NoBankGiven

fun status_code :: "http_error \<Rightarrow> nat" where
  "status_code NoQuestionsSelected = 400"
| "status_code (QuotaMismatch a b) = 400"
| "status_code NoValidQuestions = 404"
| "status_code InternalError = 500"
| "status_code (DuplicateBankName n) = 400"
| "status_code BankNotFound = 404"
| "status_code Forbidden = 403"
| "status_code NoQuestionIds = 400"
| "status_code NoBankGiven = 400"

section \<open>The store\<close>

text \<open>
  Modelled from the spec: \<^verbatim>\<open>app/crud/base.py\<close> (\<^verbatim>\<open>CRUDBase\<close> with
  \<^verbatim>\<open>get\<close>, \<^verbatim>\<open>create\<close> and \<^verbatim>\<open>update\<close>) is not among the sources.
  \<open>get\<close> is the lookup by identifier of the spec's store interface
  (\<^verbatim>\<open>get_by_id(id) -> Question | none\<close>), \<open>update\<close> sets the one column the callers
  pass (\<^verbatim>\<open>bank_id\<close>) on the row of that identifier, and \<open>create\<close> appends a row
  under a fresh identifier.
\<close>

definition question_crud_get :: "db \<Rightarrow> int \<Rightarrow> question option" where
  "question_crud_get d i = find (\<lambda>q. q_id q = i) (questions d)"

definition bank_crud_get :: "db \<Rightarrow> int \<Rightarrow> question_bank option" where
  "bank_crud_get d i = find (\<lambda>b. b_id b = i) (question_banks d)"

definition question_crud_update :: "db \<Rightarrow> question \<Rightarrow> int option \<Rightarrow> db" where
  "question_crud_update d db_obj v =
     d\<lparr>questions := map (\<lambda>q. if q_id q = q_id db_obj then q\<lparr>q_bank_id := v\<rparr> else q) (questions d)\<rparr>"

definition fresh_bank_id :: "db \<Rightarrow> int" where
  "fresh_bank_id d = fold max (map b_id (question_banks d)) 0 + 1"

definition bank_crud_create :: "db \<Rightarrow> string \<Rightarrow> string option \<Rightarrow> int option \<Rightarrow> db \<times> question_bank" where
  "bank_crud_create d name description uid =
     (let bank = \<lparr>b_id = fresh_bank_id d, b_name = name, b_description = description, b_user_id = uid\<rparr>
      in (d\<lparr>question_banks := question_banks d @ [bank]\<rparr>, bank))"

text \<open>
  \<^verbatim>\<open>CRUDQuestionBank.get_by_name\<close> of \<^verbatim>\<open>app/crud/crud_bank.py\<close>: the first row
  with that name, whoever owns it (the query filters on the name only).
\<close>

definition get_by_name :: "db \<Rightarrow> string \<Rightarrow> question_bank option" where
  "get_by_name d name = find (\<lambda>b. b_name b = name) (question_banks d)"

section \<open>Library functions the assembler calls\<close>

text \<open>
  \<^verbatim>\<open>str.capitalize\<close> (the first character in upper case, the rest in lower case)
  is the library's, defined on all of Unicode. The assembler takes it as its first
  argument, named \<open>capitalize\<close>, so what is proved of the assembler holds for the
  library's function on every key. To run examples there is \<open>capitalize_ascii\<close>, which
  is \<^verbatim>\<open>str.capitalize\<close> on texts of ASCII characters; it is used below only on
  such texts.
\<close>

definition ascii_upper :: "char \<Rightarrow> char" where
  "ascii_upper c =
     (case map_of (zip ''abcdefghijklmnopqrstuvwxyz'' ''ABCDEFGHIJKLMNOPQRSTUVWXYZ'') c of
        None \<Rightarrow> c | Some u \<Rightarrow> u)"

definition ascii_lower :: "char \<Rightarrow> char" where
  "ascii_lower c =
     (case map_of (zip ''ABCDEFGHIJKLMNOPQRSTUVWXYZ'' ''abcdefghijklmnopqrstuvwxyz'') c of
        None \<Rightarrow> c | Some l \<Rightarrow> l)"

fun capitalize_ascii :: "string \<Rightarrow> string" where
  "capitalize_ascii [] = []"
| "capitalize_ascii (c # cs) = ascii_upper c # map ascii_lower cs"

text \<open>
  \<^verbatim>\<open>random.sample(population, k)\<close>: \<open>k\<close> elements at pairwise different positions
  of the population, in the order drawn; \<^verbatim>\<open>ValueError\<close> (here \<open>None\<close>) when \<open>k\<close> is
  negative or larger than the population. The random source is the sequence of numbers
  it will deliver; each draw picks a position of what is left of the population and
  removes it. A sequence that ends delivers zeros from there on.
\<close>

type_synonym rng = "nat list"

fun randbelow :: "nat \<Rightarrow> rng \<Rightarrow> nat \<times> rng" where
  "randbelow n [] = (0, [])"
| "randbelow n (r # g) = (r mod n, g)"

fun sample_loop :: "'a list \<Rightarrow> nat \<Rightarrow> rng \<Rightarrow> 'a list \<times> rng" where
  "sample_loop pool 0 g = ([], g)"
| "sample_loop pool (Suc k) g =
     (case randbelow (length pool) g of (j, g1) \<Rightarrow>
        (case sample_loop (take j pool @ drop (Suc j) pool) k g1 of (rest, g2) \<Rightarrow>
           (pool ! j # rest, g2)))"

definition random_sample :: "rng \<Rightarrow> 'a list \<Rightarrow> int \<Rightarrow> ('a list \<times> rng) option" where
  "random_sample g population k =
     (if k < 0 \<or> int (length population) < k then None
      else Some (sample_loop population (nat k) g))"

text \<open>
  The values \<^verbatim>\<open>json.loads\<close> returns; a number that is not an integer is kept as
  its text. The assembler takes the deserializer as an argument, after \<open>capitalize\<close>
  (\<open>None\<close> is a raised exception), so what is proved of it holds for the library's
  function whatever it accepts.
\<close>

datatype json =
    JNull
  | JBool bool
  | JInt int
  | JFloat string
  | JString string
  | JArray "json list"
  | JObject "(string \<times> json) list"

text \<open>
  A deserializer to run examples with: \<^verbatim>\<open>json.loads\<close> on the documents made of
  objects, arrays, strings without escapes, integers and the three literals, with the
  usual white space. Any other text is rejected here (among them numbers with a fraction
  or an exponent and strings with a backslash, which the library accepts), so it is used
  below only on documents of this form.
\<close>

definition is_ws :: "char \<Rightarrow> bool" where
  "is_ws c = (c \<in> set [CHR '' '', CHR 0x09, CHR 0x0A, CHR 0x0D])"

definition skip_ws :: "string \<Rightarrow> string" where
  "skip_ws s = dropWhile is_ws s"

definition is_digit :: "char \<Rightarrow> bool" where
  "is_digit c = (c \<in> set ''0123456789'')"

definition digit_val :: "char \<Rightarrow> int" where
  "digit_val c = (case map_of (zip ''0123456789'' [0, 1, 2, 3, 4, 5, 6, 7, 8, 9]) c of
                    None \<Rightarrow> 0 | Some v \<Rightarrow> v)"

fun parse_string_body :: "string \<Rightarrow> (string \<times> string) option" where
  "parse_string_body [] = None"
| "parse_string_body (c # cs) =
     (if c = CHR 0x22 then Some ([], cs)
      else if c = CHR 0x5C \<or> of_char c < (32::nat) then None
      else (case parse_string_body cs of
              None \<Rightarrow> None
            | Some (body, rest) \<Rightarrow> Some (c # body, rest)))"

definition parse_digits :: "string \<Rightarrow> (int \<times> string) option" where
  "parse_digits s =
     (let ds = takeWhile is_digit s; rest = dropWhile is_digit s
      in if ds = [] \<or> (hd ds = CHR ''0'' \<and> length ds > 1) then None
         else if rest \<noteq> [] \<and> hd rest \<in> set ''.eE'' then None
         else Some (fold (\<lambda>c n. 10 * n + digit_val c) ds 0, rest))"

definition parse_int :: "string \<Rightarrow> (int \<times> string) option" where
  "parse_int s =
     (case s of
        [] \<Rightarrow> None
      | c # cs \<Rightarrow>
          if c = CHR ''-'' then
            (case parse_digits cs of None \<Rightarrow> None | Some (n, rest) \<Rightarrow> Some (- n, rest))
          else parse_digits s)"

text \<open>A Python dict keeps one entry per key: a repeated key overwrites the value in place.\<close>

definition dict_set :: "(string \<times> 'v) list \<Rightarrow> string \<Rightarrow> 'v \<Rightarrow> (string \<times> 'v) list" where
  "dict_set d k v =
     (if k \<in> set (map fst d) then map (\<lambda>(k', v'). if k' = k then (k', v) else (k', v')) d
      else d @ [(k, v)])"

fun parse_value :: "nat \<Rightarrow> string \<Rightarrow> (json \<times> string) option"
  and parse_elements :: "nat \<Rightarrow> string \<Rightarrow> (json list \<times> string) option"
  and parse_members :: "nat \<Rightarrow> string \<Rightarrow> ((string \<times> json) list \<times> string) option"
where
  "parse_value 0 s = None"
| "parse_value (Suc n) s =
     (case skip_ws s of
        [] \<Rightarrow> None
      | c # cs \<Rightarrow>
          if c = CHR ''n'' then (if take 3 cs = ''ull'' then Some (JNull, drop 3 cs) else None)
          else if c = CHR ''t'' then (if take 3 cs = ''rue'' then Some (JBool True, drop 3 cs) else None)
          else if c = CHR ''f'' then (if take 4 cs = ''alse'' then Some (JBool False, drop 4 cs) else None)
          else if c = CHR 0x22 then
            (case parse_string_body cs of
               None \<Rightarrow> None
             | Some (body, rest) \<Rightarrow> Some (JString body, rest))
          else if c = CHR ''['' then
            (case skip_ws cs of
               [] \<Rightarrow> None
             | c' # cs' \<Rightarrow>
                 if c' = CHR '']'' then Some (JArray [], cs')
                 else (case parse_elements n cs of
                         None \<Rightarrow> None
                       | Some (vs, rest) \<Rightarrow> Some (JArray vs, rest)))
          else if c = CHR ''{'' then
            (case skip_ws cs of
               [] \<Rightarrow> None
             | c' # cs' \<Rightarrow>
                 if c' = CHR ''}'' then Some (JObject [], cs')
                 else (case parse_members n cs of
                         None \<Rightarrow> None
                       | Some (ms, rest) \<Rightarrow>
                           Some (JObject (fold (\<lambda>(k, v) d. dict_set d k v) ms []), rest)))
          else (case parse_int (c # cs) of
                  None \<Rightarrow> None
                | Some (i, rest) \<Rightarrow> Some (JInt i, rest)))"
| "parse_elements 0 s = None"
| "parse_elements (Suc n) s =
     (case parse_value n s of
        None \<Rightarrow> None
      | Some (v, rest) \<Rightarrow>
          (case skip_ws rest of
             [] \<Rightarrow> None
           | c # cs \<Rightarrow>
               if c = CHR '']'' then Some ([v], cs)
               else if c = CHR '','' then
                 (case parse_elements n cs of
                    None \<Rightarrow> None
                  | Some (vs, rest') \<Rightarrow> Some (v # vs, rest'))
               else None))"
| "parse_members 0 s = None"
| "parse_members (Suc n) s =
     (case skip_ws s of
        [] \<Rightarrow> None
      | q # s1 \<Rightarrow>
          if q \<noteq> CHR 0x22 then None
          else (case parse_string_body s1 of
                  None \<Rightarrow> None
                | Some (key, s2) \<Rightarrow>
                    (case skip_ws s2 of
                       [] \<Rightarrow> None
                     | colon # s3 \<Rightarrow>
                         if colon \<noteq> CHR '':'' then None
                         else (case parse_value n s3 of
                                 None \<Rightarrow> None
                               | Some (v, s4) \<Rightarrow>
                                   (case skip_ws s4 of
                                      [] \<Rightarrow> None
                                    | c # cs \<Rightarrow>
                                        if c = CHR ''}'' then Some ([(key, v)], cs)
                                        else if c = CHR '','' then
                                          (case parse_members n cs of
                                             None \<Rightarrow> None
                                           | Some (ms, rest) \<Rightarrow> Some ((key, v) # ms, rest))
                                        else None)))))"

definition json_loads :: "string \<Rightarrow> json option" where
  "json_loads s =
     (case parse_value (2 * length s + 2) s of
        None \<Rightarrow> None
      | Some (v, rest) \<Rightarrow> if skip_ws rest = [] then Some v else None)"

section \<open>Examination assembly\<close>

text \<open>
  \<^verbatim>\<open>create_examination\<close> of \<^verbatim>\<open>app/api/examinations.py\<close>. The request body is a
  dictionary read with \<^verbatim>\<open>.get(key, default)\<close>: a missing key is \<open>None\<close> and takes
  the default of the source. The two quotas are dictionaries in insertion order, so
  association lists; their counts are integers.
\<close>

record exam_config =
  c_question_ids :: "int list option"
  c_title :: "string option"
  c_bloom_levels :: "(string \<times> int) list option"
  c_question_types :: "(string \<times> int) list option"

definition cfg_question_ids :: "exam_config \<Rightarrow> int list" where
  "cfg_question_ids cfg = (case c_question_ids cfg of None \<Rightarrow> [] | Some ids \<Rightarrow> ids)"

definition cfg_title :: "exam_config \<Rightarrow> string" where
  "cfg_title cfg = (case c_title cfg of None \<Rightarrow> ''New Examination'' | Some t \<Rightarrow> t)"

definition cfg_bloom_levels :: "exam_config \<Rightarrow> (string \<times> int) list" where
  "cfg_bloom_levels cfg = (case c_bloom_levels cfg of None \<Rightarrow> [] | Some m \<Rightarrow> m)"

definition cfg_question_types :: "exam_config \<Rightarrow> (string \<times> int) list" where
  "cfg_question_types cfg = (case c_question_types cfg of None \<Rightarrow> [] | Some m \<Rightarrow> m)"

text \<open>\<^verbatim>\<open>sum(d.values())\<close>.\<close>

definition sum_values :: "(string \<times> int) list \<Rightarrow> int" where
  "sum_values m = sum_list (map snd m)"

text \<open>The payload of one question; \<open>p_options = None\<close> is a payload without that key.\<close>

record question_data =
  p_id :: int
  p_question :: string
  p_answer :: "string option"
  p_level :: "string option"
  p_type :: "string option"
  p_options :: "json option"

record examination =
  e_title :: string
  e_questions :: "question_data list"
  total_questions :: nat

record exam_response =
  success :: bool
  examination :: examination

text \<open>The first loop: resolve the identifiers in order, dropping those the store lacks.\<close>

fun resolve_questions :: "db \<Rightarrow> int list \<Rightarrow> question list" where
  "resolve_questions d [] = []"
| "resolve_questions d (i # ids) =
     (case question_crud_get d i of
        None \<Rightarrow> resolve_questions d ids
      | Some question \<Rightarrow> question # resolve_questions d ids)"

text \<open>
  The second loop fills the two dictionaries of lists, keyed by the stored level and by
  the stored type as they are (either may be null).
\<close>

type_synonym groups = "string option \<rightharpoonup> question list"

definition group_append :: "groups \<Rightarrow> string option \<Rightarrow> question \<Rightarrow> groups" where
  "group_append m k q = m(k \<mapsto> (case m k of None \<Rightarrow> [] | Some qs \<Rightarrow> qs) @ [q])"

fun group_questions :: "question list \<Rightarrow> groups \<times> groups \<Rightarrow> groups \<times> groups" where
  "group_questions [] G = G"
| "group_questions (q # qs) (level_groups, type_groups) =
     group_questions qs (group_append level_groups (q_level q) q,
                         group_append type_groups (q_type q) q)"

text \<open>
  \<^verbatim>\<open>level_groups.get(level.capitalize(), [])\<close>, with \<^verbatim>\<open>str.capitalize\<close> as
  the argument \<open>capitalize\<close>.
\<close>

definition level_pool :: "(string \<Rightarrow> string) \<Rightarrow> groups \<Rightarrow> string \<Rightarrow> question list" where
  "level_pool capitalize level_groups level =
     (case level_groups (Some (capitalize level)) of None \<Rightarrow> [] | Some qs \<Rightarrow> qs)"

text \<open>
  One round of the selection loop, for one entry of the level quota: what it appends and
  the random source it leaves. \<open>None\<close> is an exception out of \<^verbatim>\<open>random.sample\<close>.
\<close>

definition select_level ::
  "(string \<Rightarrow> string) \<Rightarrow> groups \<Rightarrow> string \<times> int \<Rightarrow> rng \<Rightarrow> (question list \<times> rng) option" where
  "select_level capitalize level_groups entry g =
     (let level_qs = level_pool capitalize level_groups (fst entry);
          actual_count = min (snd entry) (int (length level_qs))
      in if actual_count > 0 then random_sample g level_qs actual_count else Some ([], g))"

fun select_questions ::
  "(string \<Rightarrow> string) \<Rightarrow> groups \<Rightarrow> (string \<times> int) list \<Rightarrow> question list \<Rightarrow> rng \<Rightarrow> (question list \<times> rng) option" where
  "select_questions capitalize level_groups [] selected_questions g = Some (selected_questions, g)"
| "select_questions capitalize level_groups (entry # rest) selected_questions g =
     (case select_level capitalize level_groups entry g of
        None \<Rightarrow> None
      | Some (selected, g') \<Rightarrow>
          select_questions capitalize level_groups rest (selected_questions @ selected) g')"

text \<open>
  The payload of a selected question. \<^verbatim>\<open>if q.options:\<close> holds for a stored text
  that is neither null nor empty; an exception of the deserializer gives the empty
  dictionary.
\<close>

definition format_question :: "(string \<Rightarrow> json option) \<Rightarrow> question \<Rightarrow> question_data" where
  "format_question loads q =
     \<lparr>p_id = q_id q, p_question = q_question q, p_answer = q_answer q,
      p_level = q_level q, p_type = q_type q,
      p_options =
        (case q_options q of
           None \<Rightarrow> None
         | Some s \<Rightarrow>
             if s = [] then None
             else (case loads s of None \<Rightarrow> Some (JObject []) | Some v \<Rightarrow> Some v))\<rparr>"

text \<open>
  The endpoint, after the two library functions it calls (\<^verbatim>\<open>str.capitalize\<close> and
  \<^verbatim>\<open>json.loads\<close>). An exception other than \<^verbatim>\<open>HTTPException\<close> is caught at
  the end of the source and becomes the 500 error.
\<close>

definition create_examination ::
  "(string \<Rightarrow> string) \<Rightarrow> (string \<Rightarrow> json option) \<Rightarrow> db \<Rightarrow> exam_config \<Rightarrow> rng \<Rightarrow> http_error + exam_response" where
  "create_examination capitalize loads d cfg g =
     (let question_ids = cfg_question_ids cfg;
          title = cfg_title cfg;
          bloom_levels = cfg_bloom_levels cfg;
          question_types = cfg_question_types cfg
      in if question_ids = [] then Inl NoQuestionsSelected
         else
           let total_bloom = sum_values bloom_levels;
               total_types = sum_values question_types
           in if total_bloom \<noteq> total_types then Inl (QuotaMismatch total_bloom total_types)
              else
                let questions = resolve_questions d question_ids
                in if questions = [] then Inl NoValidQuestions
                   else
                     let level_groups = fst (group_questions questions (Map.empty, Map.empty))
                     in (case select_questions capitalize level_groups bloom_levels [] g of
                           None \<Rightarrow> Inl InternalError
                         | Some (selected_questions, g') \<Rightarrow>
                             let result_questions = map (format_question loads) selected_questions
                             in Inr \<lparr>success = True,
                                    examination =
                                      \<lparr>e_title = title,
                                       e_questions = result_questions,
                                       total_questions = length result_questions\<rparr>\<rparr>))"

section \<open>Question banks\<close>

text \<open>\<^verbatim>\<open>create_bank\<close> of \<^verbatim>\<open>app/api/question_banks.py\<close>.\<close>

record question_bank_create =
  bc_name :: string
  bc_description :: "string option"
  bc_user_id :: "int option"

definition create_bank :: "db \<Rightarrow> question_bank_create \<Rightarrow> user \<Rightarrow> db \<times> (http_error + question_bank)" where
  "create_bank d bank_in current_user =
     (case get_by_name d (bc_name bank_in) of
        None \<Rightarrow>
          (case bank_crud_create d (bc_name bank_in) (bc_description bank_in) (Some (u_id current_user)) of
             (d', bank) \<Rightarrow> (d', Inr bank))
      | Some existing_bank \<Rightarrow>
          if b_user_id existing_bank = Some (u_id current_user)
          then (d, Inl (DuplicateBankName (bc_name bank_in)))
          else
            (case bank_crud_create d (bc_name bank_in) (bc_description bank_in) (Some (u_id current_user)) of
               (d', bank) \<Rightarrow> (d', Inr bank)))"

text \<open>
  The membership endpoints. The response carries the count that the source formats into
  its message.
\<close>

record bank_response =
  r_success :: bool
  r_updated_count :: nat
  r_bank_id :: int
  r_bank_name :: string

fun add_loop :: "int \<Rightarrow> int list \<Rightarrow> db \<times> nat \<Rightarrow> db \<times> nat" where
  "add_loop bank_id [] s = s"
| "add_loop bank_id (i # ids) (d, updated_count) =
     (case question_crud_get d i of
        None \<Rightarrow> add_loop bank_id ids (d, updated_count)
      | Some question \<Rightarrow>
          add_loop bank_id ids (question_crud_update d question (Some bank_id), updated_count + 1))"

fun remove_loop :: "int \<Rightarrow> int list \<Rightarrow> db \<times> nat \<Rightarrow> db \<times> nat" where
  "remove_loop bank_id [] s = s"
| "remove_loop bank_id (i # ids) (d, updated_count) =
     (case question_crud_get d i of
        None \<Rightarrow> remove_loop bank_id ids (d, updated_count)
      | Some question \<Rightarrow>
          if q_bank_id question = Some bank_id
          then remove_loop bank_id ids (question_crud_update d question None, updated_count + 1)
          else remove_loop bank_id ids (d, updated_count))"

definition add_questions_to_bank ::
  "db \<Rightarrow> int \<Rightarrow> int list \<Rightarrow> user \<Rightarrow> db \<times> (http_error + bank_response)" where
  "add_questions_to_bank d bank_id question_ids current_user =
     (case bank_crud_get d bank_id of
        None \<Rightarrow> (d, Inl BankNotFound)
      | Some bank \<Rightarrow>
          if b_user_id bank \<noteq> Some (u_id current_user) then (d, Inl Forbidden)
          else
            (case add_loop bank_id question_ids (d, 0) of
               (d', updated_count) \<Rightarrow>
                 (d', Inr \<lparr>r_success = True, r_updated_count = updated_count,
                           r_bank_id = bank_id, r_bank_name = b_name bank\<rparr>)))"

definition remove_questions_from_bank ::
  "db \<Rightarrow> int \<Rightarrow> int list \<Rightarrow> user \<Rightarrow> db \<times> (http_error + bank_response)" where
  "remove_questions_from_bank d bank_id question_ids current_user =
     (case bank_crud_get d bank_id of
        None \<Rightarrow> (d, Inl BankNotFound)
      | Some bank \<Rightarrow>
          if b_user_id bank \<noteq> Some (u_id current_user) then (d, Inl Forbidden)
          else
            (case remove_loop bank_id question_ids (d, 0) of
               (d', updated_count) \<Rightarrow>
                 (d', Inr \<lparr>r_success = True, r_updated_count = updated_count,
                           r_bank_id = bank_id, r_bank_name = b_name bank\<rparr>)))"

text \<open>
  \<^verbatim>\<open>save_questions_to_bank\<close> of \<^verbatim>\<open>app/api/questions.py\<close>. \<^verbatim>\<open>not bank_id\<close>
  holds for a missing identifier and for 0, \<^verbatim>\<open>bank_name\<close> counts when it is neither
  missing nor empty, and \<^verbatim>\<open>bank.user_id and ...\<close> skips the comparison for an owner
  that is null or 0.
\<close>

record save_request =
  s_question_ids :: "int list option"
  s_bank_id :: "int option"
  s_bank_name :: "string option"

definition falsy_id :: "int option \<Rightarrow> bool" where
  "falsy_id i = (case i of None \<Rightarrow> True | Some n \<Rightarrow> n = 0)"

definition save_questions_to_bank ::
  "db \<Rightarrow> save_request \<Rightarrow> user \<Rightarrow> db \<times> (http_error + bank_response)" where
  "save_questions_to_bank d request current_user =
     (let question_ids = (case s_question_ids request of None \<Rightarrow> [] | Some ids \<Rightarrow> ids);
          bank_name = (case s_bank_name request of None \<Rightarrow> [] | Some n \<Rightarrow> n)
      in if question_ids = [] then (d, Inl NoQuestionIds)
         else
           (case (if falsy_id (s_bank_id request) \<and> bank_name \<noteq> []
                  then (case bank_crud_create d bank_name None (Some (u_id current_user)) of
                          (d', bank) \<Rightarrow> (d', Some (b_id bank)))
                  else (d, s_bank_id request)) of
              (d1, bank_id) \<Rightarrow>
                if falsy_id bank_id then (d1, Inl NoBankGiven)
                else
                  (case bank_crud_get d1 (the bank_id) of
                     None \<Rightarrow> (d1, Inl BankNotFound)
                   | Some bank \<Rightarrow>
                       if \<not> falsy_id (b_user_id bank) \<and> b_user_id bank \<noteq> Some (u_id current_user)
                       then (d1, Inl Forbidden)
                       else
                         (case add_loop (the bank_id) question_ids (d1, 0) of
                            (d2, updated_count) \<Rightarrow>
                              (d2, Inr \<lparr>r_success = True, r_updated_count = updated_count,
                                        r_bank_id = the bank_id, r_bank_name = b_name bank\<rparr>)))))"

section \<open>Grouping and sampling\<close>

text \<open>
  The level dictionary built by the grouping loop holds, under each stored level, the
  resolved questions of that level in their order; a sample of \<open>k\<close> elements has length
  \<open>k\<close> and takes no element more often than the population has it.
\<close>

lemma group_append_apply:
  "group_append m k q k' = (if k' = k then Some ((case m k of None \<Rightarrow> [] | Some qs \<Rightarrow> qs) @ [q]) else m k')"
  by (simp add: group_append_def)

lemma group_questions_level:
  "fst (group_questions qs (lg, tg)) k =
     (if filter (\<lambda>q. q_level q = k) qs = [] then lg k
      else Some ((case lg k of None \<Rightarrow> [] | Some l \<Rightarrow> l) @ filter (\<lambda>q. q_level q = k) qs))"
proof (induction qs arbitrary: lg tg)
  case Nil
  then show ?case by simp
next
  case (Cons q qs)
  show ?case
    by (simp add: Cons.IH group_append_apply)
qed

lemma level_pool_group_questions:
  "level_pool capitalize (fst (group_questions qs (Map.empty, Map.empty))) level =
     filter (\<lambda>q. q_level q = Some (capitalize level)) qs"
  by (simp add: level_pool_def group_questions_level)

lemma randbelow_less: "0 < n \<Longrightarrow> fst (randbelow n g) < n"
  by (cases g) simp_all

lemma sample_loop_sound:
  "k \<le> length pool \<Longrightarrow>
     length (fst (sample_loop pool k g)) = k \<and> mset (fst (sample_loop pool k g)) \<subseteq># mset pool"
proof (induction k arbitrary: pool g)
  case 0
  then show ?case by simp
next
  case (Suc k)
  obtain j g1 where rb: "randbelow (length pool) g = (j, g1)" by (cases "randbelow (length pool) g")
  from Suc.prems have pos: "0 < length pool" by (cases pool) simp_all
  with randbelow_less [of "length pool" g] rb have j: "j < length pool" by simp
  let ?pool' = "take j pool @ drop (Suc j) pool"
  obtain rest g2 where sl: "sample_loop ?pool' k g1 = (rest, g2)" by (cases "sample_loop ?pool' k g1")
  from j Suc.prems have len: "k \<le> length ?pool'" by simp
  from Suc.IH [OF len, of g1] sl have ih: "length rest = k" "mset rest \<subseteq># mset ?pool'" by simp_all
  from j have split: "mset pool = add_mset (pool ! j) (mset ?pool')"
    by (metis id_take_nth_drop mset.simps(2) mset_append union_mset_add_mset_right)
  from ih split rb sl show ?case by simp
qed

lemma select_level_sound:
  "\<exists>sel g'. select_level capitalize G entry g = Some (sel, g')
     \<and> mset sel \<subseteq># mset (level_pool capitalize G (fst entry))
     \<and> int (length sel) = max 0 (min (snd entry) (int (length (level_pool capitalize G (fst entry)))))"
proof -
  define pool where "pool = level_pool capitalize G (fst entry)"
  define k where "k = min (snd entry) (int (length pool))"
  have sl: "select_level capitalize G entry g = (if k > 0 then random_sample g pool k else Some ([], g))"
    by (simp add: select_level_def Let_def pool_def k_def)
  show ?thesis
  proof (cases "0 < k")
    case True
    have kle: "k \<le> int (length pool)" by (simp add: k_def)
    with True have rs: "random_sample g pool k = Some (sample_loop pool (nat k) g)"
      by (simp add: random_sample_def)
    obtain sel g' where sm: "sample_loop pool (nat k) g = (sel, g')"
      by (cases "sample_loop pool (nat k) g")
    from kle True have "nat k \<le> length pool" by simp
    from sample_loop_sound [OF this, of g] sm
    have "length sel = nat k" "mset sel \<subseteq># mset pool" by simp_all
    with True sl rs sm show ?thesis
      unfolding pool_def [symmetric] k_def [symmetric] by simp
  next
    case False
    with sl show ?thesis
      unfolding pool_def [symmetric] k_def [symmetric] by simp
  qed
qed

lemma select_questions_sound:
  "\<exists>sels g'. select_questions capitalize G quota acc g = Some (acc @ concat sels, g')
     \<and> list_all2 (\<lambda>entry sel. mset sel \<subseteq># mset (level_pool capitalize G (fst entry))
          \<and> int (length sel) = max 0 (min (snd entry) (int (length (level_pool capitalize G (fst entry))))))
        quota sels"
proof (induction quota arbitrary: acc g)
  case Nil
  show ?case by simp
next
  case (Cons entry rest)
  from select_level_sound [of capitalize G entry g] obtain sel g1 where
    sl: "select_level capitalize G entry g = Some (sel, g1)"
    and ok: "mset sel \<subseteq># mset (level_pool capitalize G (fst entry))"
      "int (length sel) = max 0 (min (snd entry) (int (length (level_pool capitalize G (fst entry)))))"
    by blast
  from Cons.IH [of "acc @ sel" g1] obtain sels g' where
    rec: "select_questions capitalize G rest (acc @ sel) g1 = Some ((acc @ sel) @ concat sels, g')"
    and all: "list_all2 (\<lambda>entry sel. mset sel \<subseteq># mset (level_pool capitalize G (fst entry))
          \<and> int (length sel) = max 0 (min (snd entry) (int (length (level_pool capitalize G (fst entry))))))
        rest sels"
    by blast
  from sl rec ok all show ?case
    by (intro exI [of _ "sel # sels"] exI [of _ g']) simp
qed

lemma resolve_questions_nonempty:
  "ids \<noteq> [] \<Longrightarrow> \<forall>i \<in> set ids. question_crud_get d i \<noteq> None \<Longrightarrow> resolve_questions d ids \<noteq> []"
  by (cases ids) auto

text \<open>
  Once the three checks pass, the endpoint succeeds: it returns the payloads of one
  selection per entry of the level quota, in the order of the entries.
\<close>

lemma create_examination_success:
  assumes "cfg_question_ids cfg \<noteq> []"
    and "sum_values (cfg_bloom_levels cfg) = sum_values (cfg_question_types cfg)"
    and "resolve_questions d (cfg_question_ids cfg) \<noteq> []"
  shows "\<exists>sels. create_examination capitalize loads d cfg g =
            Inr \<lparr>success = True,
                 examination =
                   \<lparr>e_title = cfg_title cfg,
                    e_questions = map (format_question loads) (concat sels),
                    total_questions = length (concat sels)\<rparr>\<rparr>
          \<and> list_all2
               (\<lambda>entry sel.
                  mset sel \<subseteq># mset (filter (\<lambda>q. q_level q = Some (capitalize (fst entry)))
                                      (resolve_questions d (cfg_question_ids cfg)))
                  \<and> int (length sel) =
                      max 0 (min (snd entry)
                        (int (length (filter (\<lambda>q. q_level q = Some (capitalize (fst entry)))
                                         (resolve_questions d (cfg_question_ids cfg)))))))
               (cfg_bloom_levels cfg) sels"
proof -
  let ?qs = "resolve_questions d (cfg_question_ids cfg)"
  let ?G = "fst (group_questions ?qs (Map.empty, Map.empty))"
  from select_questions_sound [of capitalize ?G "cfg_bloom_levels cfg" "[]" g]
  obtain sels g' where
    sq: "select_questions capitalize ?G (cfg_bloom_levels cfg) [] g = Some (concat sels, g')"
    and all: "list_all2 (\<lambda>entry sel. mset sel \<subseteq># mset (level_pool capitalize ?G (fst entry))
          \<and> int (length sel) = max 0 (min (snd entry) (int (length (level_pool capitalize ?G (fst entry))))))
        (cfg_bloom_levels cfg) sels"
    by auto
  from assms sq have "create_examination capitalize loads d cfg g =
            Inr \<lparr>success = True,
                 examination =
                   \<lparr>e_title = cfg_title cfg,
                    e_questions = map (format_question loads) (concat sels),
                    total_questions = length (concat sels)\<rparr>\<rparr>"
    by (simp add: create_examination_def Let_def)
  with all show ?thesis
    unfolding level_pool_group_questions by blast
qed

lemma length_concat_list_all2:
  "list_all2 (\<lambda>x sel. P x sel \<and> int (length sel) = f x) xs sels \<Longrightarrow>
     int (length (concat sels)) = sum_list (map f xs)"
  by (induction xs sels rule: list_all2_induct) simp_all

lemma distinct_mset_subseteq:
  assumes "mset xs \<subseteq># mset ys" and "distinct ys"
  shows "distinct xs"
proof -
  have "count (mset xs) a = (if a \<in> set xs then 1 else 0)" for a
  proof -
    have "count (mset xs) a \<le> count (mset ys) a"
      using assms(1) by (rule mset_subset_eq_count)
    also have "\<dots> \<le> 1"
      using assms(2) by (simp add: distinct_count_atmost_1)
    finally have le: "count (mset xs) a \<le> 1" .
    show ?thesis
    proof (cases "a \<in> set xs")
      case True
      then have "count (mset xs) a \<noteq> 0" by simp
      with le have "count (mset xs) a = 1" by arith
      with True show ?thesis by (simp only: if_True)
    next
      case False
      then show ?thesis by (simp add: count_eq_zero_iff)
    qed
  qed
  then show ?thesis by (simp add: distinct_count_atmost_1)
qed

lemma distinct_map_mset_subseteq:
  assumes "mset xs \<subseteq># mset ys" and "distinct (map f ys)"
  shows "distinct (map f xs)"
proof -
  from assms(1) have "image_mset f (mset xs) \<subseteq># image_mset f (mset ys)"
    by (rule image_mset_subseteq_mono)
  then have "mset (map f xs) \<subseteq># mset (map f ys)" by simp
  then show ?thesis using assms(2) by (rule distinct_mset_subseteq)
qed

lemma question_crud_get_id: "question_crud_get d i = Some q \<Longrightarrow> q_id q = i"
  by (auto simp: question_crud_get_def find_Some_iff)

lemma resolve_questions_ids:
  "map q_id (resolve_questions d ids) = filter (\<lambda>i. question_crud_get d i \<noteq> None) ids"
  by (induction ids) (auto dest: question_crud_get_id split: option.splits)

lemma concat_selections_subseteq:
  assumes "list_all2 (\<lambda>entry sel. mset sel \<subseteq># mset (filter (\<lambda>q. q_level q = Some (capitalize (fst entry))) qs) \<and> Q entry sel)
             quota sels"
    and "distinct (map (\<lambda>entry. capitalize (fst entry)) quota)"
  shows "mset (concat sels) \<subseteq>#
           mset (filter (\<lambda>q. q_level q \<in> (\<lambda>entry. Some (capitalize (fst entry))) ` set quota) qs)"
  using assms
proof (induction quota sels rule: list_all2_induct)
  case Nil
  then show ?case by simp
next
  case (Cons entry quota sel sels)
  let ?k = "Some (capitalize (fst entry))"
  let ?S = "(\<lambda>entry. Some (capitalize (fst entry))) ` set quota"
  from Cons.prems have notin: "?k \<notin> ?S" by auto
  from Cons.prems have "distinct (map (\<lambda>entry. capitalize (fst entry)) quota)" by simp
  from Cons.IH [OF this] have rest: "mset (concat sels) \<subseteq># mset (filter (\<lambda>q. q_level q \<in> ?S) qs)" .
  from Cons.hyps have here: "mset sel \<subseteq># mset (filter (\<lambda>q. q_level q = ?k) qs)" by simp
  have split: "mset (filter (\<lambda>q. q_level q = ?k) qs) + mset (filter (\<lambda>q. q_level q \<in> ?S) qs)
        = mset (filter (\<lambda>q. q_level q \<in> insert ?k ?S) qs)"
    using notin by (intro multiset_eqI) (auto simp: count_mset)
  from here rest have "mset sel + mset (concat sels) \<subseteq>#
      mset (filter (\<lambda>q. q_level q = ?k) qs) + mset (filter (\<lambda>q. q_level q \<in> ?S) qs)"
    by (rule subset_mset.add_mono)
  with split show ?case by simp
qed

lemma question_crud_get_stored: "question_crud_get d i = Some q \<Longrightarrow> q \<in> set (questions d)"
  by (auto simp: question_crud_get_def find_Some_iff)

lemma resolve_questions_stored: "set (resolve_questions d ids) \<subseteq> set (questions d)"
  by (induction ids) (auto dest: question_crud_get_stored split: option.splits)

lemma concat_selections_set:
  "list_all2 (\<lambda>entry sel. mset sel \<subseteq># mset (filter (P entry) qs) \<and> Q entry sel) quota sels
     \<Longrightarrow> set (concat sels) \<subseteq> set qs"
proof (induction quota sels rule: list_all2_induct)
  case Nil
  then show ?case by simp
next
  case (Cons entry quota sel sels)
  from Cons.hyps have "mset sel \<subseteq># mset (filter (P entry) qs)" by simp
  then have "set_mset (mset sel) \<subseteq> set_mset (mset (filter (P entry) qs))" by (rule set_mset_mono)
  then have "set sel \<subseteq> set qs" by auto
  with Cons.IH show ?case by simp
qed

lemma create_examination_no_internal_error:
  "create_examination capitalize loads d cfg g \<noteq> Inl InternalError"
proof -
  let ?G = "fst (group_questions (resolve_questions d (cfg_question_ids cfg)) (Map.empty, Map.empty))"
  from select_questions_sound [of capitalize ?G "cfg_bloom_levels cfg" "[]" g]
  obtain sels g' where "select_questions capitalize ?G (cfg_bloom_levels cfg) [] g = Some (concat sels, g')"
    by auto
  then show ?thesis by (simp add: create_examination_def Let_def)
qed

lemma create_examination_payloads:
  assumes "create_examination capitalize loads d cfg g = Inr r"
  shows "\<exists>sel. set sel \<subseteq> set (questions d)
           \<and> e_questions (examination r) = map (format_question loads) sel"
proof -
  let ?qs = "resolve_questions d (cfg_question_ids cfg)"
  from assms have c1: "cfg_question_ids cfg \<noteq> []"
    and c2: "sum_values (cfg_bloom_levels cfg) = sum_values (cfg_question_types cfg)"
    and c3: "?qs \<noteq> []"
    by (auto simp: create_examination_def Let_def split: if_splits)
  from create_examination_success [OF c1 c2 c3, of capitalize loads g] assms
  obtain sels where
    r: "r = \<lparr>success = True,
                 examination =
                   \<lparr>e_title = cfg_title cfg,
                    e_questions = map (format_question loads) (concat sels),
                    total_questions = length (concat sels)\<rparr>\<rparr>"
    and all: "list_all2
               (\<lambda>entry sel.
                  mset sel \<subseteq># mset (filter (\<lambda>q. q_level q = Some (capitalize (fst entry))) ?qs)
                  \<and> int (length sel) =
                      max 0 (min (snd entry)
                        (int (length (filter (\<lambda>q. q_level q = Some (capitalize (fst entry))) ?qs)))))
               (cfg_bloom_levels cfg) sels"
    by auto
  from all have "set (concat sels) \<subseteq> set ?qs" by (rule concat_selections_set)
  with resolve_questions_stored [of d "cfg_question_ids cfg"]
  have "set (concat sels) \<subseteq> set (questions d)" by blast
  moreover have "e_questions (examination r) = map (format_question loads) (concat sels)"
    by (simp add: r)
  ultimately show ?thesis by blast
qed

text \<open>
  The update loop of the membership endpoints in closed form, and the row a creation adds.
\<close>

lemma question_crud_get_update:
  "question_crud_get (question_crud_update d db_obj v) i =
     map_option (\<lambda>q. if q_id q = q_id db_obj then q\<lparr>q_bank_id := v\<rparr> else q) (question_crud_get d i)"
proof -
  have "find (\<lambda>q. q_id q = i) (map (\<lambda>q. if q_id q = q_id db_obj then q\<lparr>q_bank_id := v\<rparr> else q) xs)
        = map_option (\<lambda>q. if q_id q = q_id db_obj then q\<lparr>q_bank_id := v\<rparr> else q) (find (\<lambda>q. q_id q = i) xs)"
    for xs
    by (induction xs) simp_all
  then show ?thesis by (simp add: question_crud_get_def question_crud_update_def)
qed

lemma question_crud_get_None: "question_crud_get d i = None \<Longrightarrow> q \<in> set (questions d) \<Longrightarrow> q_id q \<noteq> i"
  by (auto simp: question_crud_get_def find_None_iff)

lemma add_loop_closed:
  "add_loop b ids (d, n) =
     (d\<lparr>questions := map (\<lambda>q. if q_id q \<in> set ids then q\<lparr>q_bank_id := Some b\<rparr> else q) (questions d)\<rparr>,
      n + length (filter (\<lambda>i. question_crud_get d i \<noteq> None) ids))"
proof (induction ids arbitrary: d n)
  case Nil
  then show ?case by simp
next
  case (Cons i ids)
  show ?case
  proof (cases "question_crud_get d i")
    case None
    then have "map (\<lambda>q. if q_id q \<in> set (i # ids) then q\<lparr>q_bank_id := Some b\<rparr> else q) (questions d)
             = map (\<lambda>q. if q_id q \<in> set ids then q\<lparr>q_bank_id := Some b\<rparr> else q) (questions d)"
      by (intro map_cong refl) (auto dest: question_crud_get_None)
    with None show ?thesis by (simp add: Cons.IH)
  next
    case (Some question)
    then have qi: "q_id question = i" by (rule question_crud_get_id)
    let ?d' = "question_crud_update d question (Some b)"
    have same: "(question_crud_get ?d' j \<noteq> None) = (question_crud_get d j \<noteq> None)" for j
      by (simp add: question_crud_get_update)
    have qs: "questions ?d' = map (\<lambda>q. if q_id q = i then q\<lparr>q_bank_id := Some b\<rparr> else q) (questions d)"
      by (simp add: question_crud_update_def qi)
    have upd: "?d'\<lparr>questions := xs\<rparr> = d\<lparr>questions := xs\<rparr>" for xs
      by (simp add: question_crud_update_def)
    have "map (\<lambda>q. if q_id q \<in> set ids then q\<lparr>q_bank_id := Some b\<rparr> else q) (questions ?d')
        = map (\<lambda>q. if q_id q \<in> set (i # ids) then q\<lparr>q_bank_id := Some b\<rparr> else q) (questions d)"
      by (simp add: qs)
    with Some same upd show ?thesis by (simp add: Cons.IH)
  qed
qed

lemma fold_max_ge: "(a::int) \<le> fold max xs a"
proof (induction xs arbitrary: a)
  case Nil
  then show ?case by simp
next
  case (Cons x xs)
  have "a \<le> max x a" by simp
  also have "\<dots> \<le> fold max xs (max x a)" by (rule Cons.IH)
  finally show ?case by simp
qed

lemma fold_max_ge_elem: "x \<in> set xs \<Longrightarrow> (x::int) \<le> fold max xs a"
proof (induction xs arbitrary: a)
  case Nil
  then show ?case by simp
next
  case (Cons y ys)
  show ?case
  proof (cases "x = y")
    case True
    have "x \<le> max y a" using True by simp
    also have "\<dots> \<le> fold max ys (max y a)" by (rule fold_max_ge)
    finally show ?thesis by simp
  next
    case False
    with Cons.prems have "x \<in> set ys" by simp
    from Cons.IH [OF this] show ?thesis by simp
  qed
qed

lemma fresh_bank_id_new: "b \<in> set (question_banks d) \<Longrightarrow> b_id b \<noteq> fresh_bank_id d"
proof -
  assume "b \<in> set (question_banks d)"
  then have "b_id b \<in> set (map b_id (question_banks d))" by simp
  then have "b_id b \<le> fold max (map b_id (question_banks d)) 0" by (rule fold_max_ge_elem)
  then show ?thesis by (simp add: fresh_bank_id_def)
qed

lemma fresh_bank_id_pos: "0 < fresh_bank_id d"
  using fold_max_ge [of 0 "map b_id (question_banks d)"] by (simp add: fresh_bank_id_def)

lemma find_snoc_None: "find P xs = None \<Longrightarrow> find P (xs @ [y]) = (if P y then Some y else None)"
  by (induction xs) (simp_all split: if_splits)

lemma bank_crud_get_created:
  "bank_crud_create d name description uid = (d', bank) \<Longrightarrow>
     bank_crud_get d' (b_id bank) = Some bank \<and> b_user_id bank = uid \<and> b_id bank \<noteq> 0"
proof -
  assume c: "bank_crud_create d name description uid = (d', bank)"
  then have bank: "bank = \<lparr>b_id = fresh_bank_id d, b_name = name, b_description = description, b_user_id = uid\<rparr>"
    and d': "question_banks d' = question_banks d @ [bank]"
    by (auto simp: bank_crud_create_def Let_def)
  have "find (\<lambda>b. b_id b = fresh_bank_id d) (question_banks d) = None"
    by (auto simp: find_None_iff dest: fresh_bank_id_new)
  then have "find (\<lambda>b. b_id b = fresh_bank_id d) (question_banks d @ [bank]) = Some bank"
    by (simp add: find_snoc_None bank)
  with bank d' fresh_bank_id_pos [of d] show ?thesis
    by (simp add: bank_crud_get_def)
qed

section \<open>Properties of the assembler's checks\<close>

text \<open>
  C3 (as amended). When the list of question identifiers is not empty and the sum of the
  level quota differs from the sum of the type quota, \<open>create_examination\<close> fails with
  \<open>QuotaMismatch\<close>, which carries the level total and the type total. The check for an
  empty selection comes first in the source, so the premise on the identifiers is needed.
\<close>

theorem quota_mismatch_after_nonempty:
  assumes "cfg_question_ids cfg \<noteq> []"
    and "sum_values (cfg_bloom_levels cfg) \<noteq> sum_values (cfg_question_types cfg)"
  shows "create_examination capitalize loads d cfg g =
           Inl (QuotaMismatch (sum_values (cfg_bloom_levels cfg)) (sum_values (cfg_question_types cfg)))"
  using assms by (simp add: create_examination_def Let_def)

theorem quota_mismatch_after_nonempty_witness:
  "cfg_question_ids \<lparr>c_question_ids = Some [7], c_title = None,
       c_bloom_levels = Some [(''Remember'', 2), (''Apply'', 1)],
       c_question_types = Some [(''multiple_choice'', 2)]\<rparr> \<noteq> []
   \<and> create_examination capitalize_ascii json_loads \<lparr>questions = [], question_banks = []\<rparr>
       \<lparr>c_question_ids = Some [7], c_title = None,
        c_bloom_levels = Some [(''Remember'', 2), (''Apply'', 1)],
        c_question_types = Some [(''multiple_choice'', 2)]\<rparr> [] = Inl (QuotaMismatch 3 2)"
  using quota_mismatch_after_nonempty [of "\<lparr>c_question_ids = Some [7], c_title = None,
       c_bloom_levels = Some [(''Remember'', 2), (''Apply'', 1)],
       c_question_types = Some [(''multiple_choice'', 2)]\<rparr>" capitalize_ascii json_loads
       "\<lparr>questions = [], question_banks = []\<rparr>" "[]"]
  by (simp add: cfg_question_ids_def cfg_bloom_levels_def cfg_question_types_def sum_values_def)

text \<open>
  C3 as stated fails: with the mismatched quotas of the spec's example and no question
  identifier, the error is \<open>NoQuestionsSelected\<close>, not \<open>QuotaMismatch\<close>.
\<close>

theorem quota_mismatch_empty_ids_counterexample:
  "sum_values [(''Remember'', 2), (''Apply'', 1)] \<noteq> sum_values [(''multiple_choice'', 2)]
   \<and> create_examination capitalize_ascii json_loads \<lparr>questions = [], question_banks = []\<rparr>
       \<lparr>c_question_ids = Some [], c_title = None,
        c_bloom_levels = Some [(''Remember'', 2), (''Apply'', 1)],
        c_question_types = Some [(''multiple_choice'', 2)]\<rparr> [] = Inl NoQuestionsSelected"
  by (simp add: create_examination_def cfg_question_ids_def sum_values_def)

text \<open>
  C4. The type quota is read only for its total: two requests that agree on the question
  identifiers, the title and the level quota, and whose type quotas have the same sum,
  give the same result (the same examination or the same error) from the same store and
  the same random source.
\<close>

theorem type_quota_only_total:
  assumes "c_question_ids cfg' = c_question_ids cfg"
    and "c_title cfg' = c_title cfg"
    and "c_bloom_levels cfg' = c_bloom_levels cfg"
    and "sum_values (cfg_question_types cfg') = sum_values (cfg_question_types cfg)"
  shows "create_examination capitalize loads d cfg' g = create_examination capitalize loads d cfg g"
  using assms
  by (simp add: create_examination_def cfg_question_ids_def cfg_title_def cfg_bloom_levels_def Let_def)

theorem type_quota_only_total_witness:
  "sum_values (cfg_question_types \<lparr>c_question_ids = Some [1], c_title = None,
       c_bloom_levels = Some [(''Remember'', 2)],
       c_question_types = Some [(''fill_in_blanks'', 2)]\<rparr>)
     = sum_values (cfg_question_types \<lparr>c_question_ids = Some [1], c_title = None,
       c_bloom_levels = Some [(''Remember'', 2)],
       c_question_types = Some [(''multiple_choice'', 1), (''true_false'', 1)]\<rparr>)
   \<and> create_examination capitalize_ascii json_loads
        \<lparr>questions = [\<lparr>q_id = 1, q_question = ''Q'', q_answer = None, q_level = Some ''Remember'',
                       q_type = Some ''true_false'', q_options = None, q_context = None,
                       q_bank_id = None\<rparr>], question_banks = []\<rparr>
        \<lparr>c_question_ids = Some [1], c_title = None,
         c_bloom_levels = Some [(''Remember'', 2)],
         c_question_types = Some [(''fill_in_blanks'', 2)]\<rparr> [4]
     = create_examination capitalize_ascii json_loads
        \<lparr>questions = [\<lparr>q_id = 1, q_question = ''Q'', q_answer = None, q_level = Some ''Remember'',
                       q_type = Some ''true_false'', q_options = None, q_context = None,
                       q_bank_id = None\<rparr>], question_banks = []\<rparr>
        \<lparr>c_question_ids = Some [1], c_title = None,
         c_bloom_levels = Some [(''Remember'', 2)],
         c_question_types = Some [(''multiple_choice'', 1), (''true_false'', 1)]\<rparr> [4]"
  using type_quota_only_total [of
      "\<lparr>c_question_ids = Some [1], c_title = None,
        c_bloom_levels = Some [(''Remember'', 2)],
        c_question_types = Some [(''fill_in_blanks'', 2)]\<rparr>"
      "\<lparr>c_question_ids = Some [1], c_title = None,
        c_bloom_levels = Some [(''Remember'', 2)],
        c_question_types = Some [(''multiple_choice'', 1), (''true_false'', 1)]\<rparr>"
      capitalize_ascii json_loads
      "\<lparr>questions = [\<lparr>q_id = 1, q_question = ''Q'', q_answer = None, q_level = Some ''Remember'',
                     q_type = Some ''true_false'', q_options = None, q_context = None,
                     q_bank_id = None\<rparr>], question_banks = []\<rparr>"
      "[4]"]
  by (simp add: cfg_question_types_def sum_values_def)

text \<open>
  C10. An entry of the level quota whose requested count is zero or negative appends
  nothing and raises nothing: its round of the loop returns the empty selection and the
  random source untouched (\<^verbatim>\<open>random.sample\<close> is not called), so wherever the
  entry stands in the quota, the loop selects what it selects without the entry.
\<close>

theorem nonpositive_count_selects_nothing:
  assumes "requested \<le> 0"
  shows "select_level capitalize level_groups (level, requested) g = Some ([], g)
       \<and> select_questions capitalize level_groups (before @ (level, requested) # rest) selected_questions g
           = select_questions capitalize level_groups (before @ rest) selected_questions g"
proof
  from assms show here: "select_level capitalize level_groups (level, requested) g = Some ([], g)"
    by (simp add: select_level_def Let_def min_def)
  show "select_questions capitalize level_groups (before @ (level, requested) # rest) selected_questions g
           = select_questions capitalize level_groups (before @ rest) selected_questions g"
  proof (induction before arbitrary: selected_questions g)
    case Nil
    from assms have "select_level capitalize level_groups (level, requested) g = Some ([], g)"
      by (simp add: select_level_def Let_def min_def)
    then show ?case by simp
  next
    case (Cons entry before)
    then show ?case by (simp split: option.splits)
  qed
qed

theorem nonpositive_count_selects_nothing_witness:
  "(-2::int) \<le> 0
   \<and> select_level capitalize_ascii
        (fst (group_questions
           [\<lparr>q_id = 1, q_question = ''Q'', q_answer = None, q_level = Some ''Remember'',
        q_type = None, q_options = None, q_context = None, q_bank_id = None\<rparr>]
           (Map.empty, Map.empty)))
        (''Remember'', -2) [5] = Some ([], [5])
   \<and> select_questions capitalize_ascii
        (fst (group_questions
           [\<lparr>q_id = 1, q_question = ''Q'', q_answer = None, q_level = Some ''Remember'',
        q_type = None, q_options = None, q_context = None, q_bank_id = None\<rparr>]
           (Map.empty, Map.empty)))
        [(''Apply'', 1), (''Remember'', -2), (''Remember'', 1)] [] [5]
       = Some ([\<lparr>q_id = 1, q_question = ''Q'', q_answer = None, q_level = Some ''Remember'',
        q_type = None, q_options = None, q_context = None, q_bank_id = None\<rparr>], [])"
  using nonpositive_count_selects_nothing [of "-2" capitalize_ascii
      "(fst (group_questions
           [\<lparr>q_id = 1, q_question = ''Q'', q_answer = None, q_level = Some ''Remember'',
        q_type = None, q_options = None, q_context = None, q_bank_id = None\<rparr>]
           (Map.empty, Map.empty)))" "''Remember''" "[5]" "[(''Apply'', 1)]" "[(''Remember'', 1)]" "[]"]
  by (simp add: select_level_def level_pool_def group_append_def random_sample_def
        ascii_upper_def ascii_lower_def)

section \<open>Properties of the selection\<close>

text \<open>
  C1 (as amended). When the list of question identifiers is not empty, each identifier
  resolves, and the two quotas have the same sum, \<open>create_examination\<close> succeeds. Its
  \<open>total_questions\<close> is the sum, over the entries \<open>(level, requested)\<close> of the level
  quota, of \<open>max 0 (min requested pool)\<close>, where \<open>pool\<close> counts the resolved questions
  whose stored level equals \<open>capitalize level\<close>, for \<open>capitalize\<close> the function the
  code applies to the key. The questions of the result are the
  payloads of one selection per entry, in the order of the entries, each selection of that
  size and drawn from that pool without taking a position twice.
\<close>

theorem assembled_total:
  assumes "cfg_question_ids cfg \<noteq> []"
    and "\<forall>i \<in> set (cfg_question_ids cfg). question_crud_get d i \<noteq> None"
    and "sum_values (cfg_bloom_levels cfg) = sum_values (cfg_question_types cfg)"
  shows "\<exists>r sels. create_examination capitalize loads d cfg g = Inr r
      \<and> int (total_questions (examination r)) =
          (\<Sum>entry \<leftarrow> cfg_bloom_levels cfg.
             max 0 (min (snd entry)
               (int (length (filter (\<lambda>q. q_level q = Some (capitalize (fst entry)))
                                (resolve_questions d (cfg_question_ids cfg)))))))
      \<and> e_questions (examination r) = concat (map (map (format_question loads)) sels)
      \<and> list_all2
           (\<lambda>entry sel.
              mset sel \<subseteq># mset (filter (\<lambda>q. q_level q = Some (capitalize (fst entry)))
                                  (resolve_questions d (cfg_question_ids cfg)))
              \<and> int (length sel) =
                  max 0 (min (snd entry)
                    (int (length (filter (\<lambda>q. q_level q = Some (capitalize (fst entry)))
                                     (resolve_questions d (cfg_question_ids cfg)))))))
           (cfg_bloom_levels cfg) sels"
proof -
  from assms(1,2) have ne: "resolve_questions d (cfg_question_ids cfg) \<noteq> []"
    by (rule resolve_questions_nonempty)
  from create_examination_success [OF assms(1) assms(3) ne, of capitalize loads g]
  obtain sels where
    res: "create_examination capitalize loads d cfg g =
            Inr \<lparr>success = True,
                 examination =
                   \<lparr>e_title = cfg_title cfg,
                    e_questions = map (format_question loads) (concat sels),
                    total_questions = length (concat sels)\<rparr>\<rparr>"
    and all: "list_all2
               (\<lambda>entry sel.
                  mset sel \<subseteq># mset (filter (\<lambda>q. q_level q = Some (capitalize (fst entry)))
                                      (resolve_questions d (cfg_question_ids cfg)))
                  \<and> int (length sel) =
                      max 0 (min (snd entry)
                        (int (length (filter (\<lambda>q. q_level q = Some (capitalize (fst entry)))
                                         (resolve_questions d (cfg_question_ids cfg)))))))
               (cfg_bloom_levels cfg) sels"
    by blast
  from all have total: "int (length (concat sels)) =
          (\<Sum>entry \<leftarrow> cfg_bloom_levels cfg.
             max 0 (min (snd entry)
               (int (length (filter (\<lambda>q. q_level q = Some (capitalize (fst entry)))
                                (resolve_questions d (cfg_question_ids cfg)))))))"
    by (rule length_concat_list_all2)
  let ?r = "\<lparr>success = True,
             examination =
               \<lparr>e_title = cfg_title cfg,
                e_questions = map (format_question loads) (concat sels),
                total_questions = length (concat sels)\<rparr>\<rparr>"
  have a: "create_examination capitalize loads d cfg g = Inr ?r" by (rule res)
  have b: "int (total_questions (examination ?r)) =
          (\<Sum>entry \<leftarrow> cfg_bloom_levels cfg.
             max 0 (min (snd entry)
               (int (length (filter (\<lambda>q. q_level q = Some (capitalize (fst entry)))
                                (resolve_questions d (cfg_question_ids cfg)))))))"
    using total by simp
  have c: "e_questions (examination ?r) = concat (map (map (format_question loads)) sels)"
    by (simp add: map_concat)
  from a b c all show ?thesis by blast
qed

text \<open>
  An instance: three stored questions, a quota that asks for one of two, for five of one,
  and for a negative count; two questions are returned.
\<close>

theorem assembled_total_witness:
  "cfg_question_ids
     \<lparr>c_question_ids = Some [1, 2, 3], c_title = None,
      c_bloom_levels = Some [(''remember'', 1), (''Apply'', 5), (''Create'', -2)],
      c_question_types = Some [(''multiple_choice'', 4)]\<rparr> \<noteq> []
   \<and> question_crud_get
     \<lparr>questions = [\<lparr>q_id = 1, q_question = ''Q'', q_answer = None, q_level = Some ''Remember'',
        q_type = None, q_options = None, q_context = None, q_bank_id = None\<rparr>,
       \<lparr>q_id = 2, q_question = ''Q'', q_answer = None, q_level = Some ''Remember'',
        q_type = None, q_options = None, q_context = None, q_bank_id = None\<rparr>,
       \<lparr>q_id = 3, q_question = ''Q'', q_answer = None, q_level = Some ''Apply'',
        q_type = None, q_options = None, q_context = None, q_bank_id = None\<rparr>],
      question_banks = []\<rparr> 1 \<noteq> None
   \<and> question_crud_get
     \<lparr>questions = [\<lparr>q_id = 1, q_question = ''Q'', q_answer = None, q_level = Some ''Remember'',
        q_type = None, q_options = None, q_context = None, q_bank_id = None\<rparr>,
       \<lparr>q_id = 2, q_question = ''Q'', q_answer = None, q_level = Some ''Remember'',
        q_type = None, q_options = None, q_context = None, q_bank_id = None\<rparr>,
       \<lparr>q_id = 3, q_question = ''Q'', q_answer = None, q_level = Some ''Apply'',
        q_type = None, q_options = None, q_context = None, q_bank_id = None\<rparr>],
      question_banks = []\<rparr> 2 \<noteq> None
   \<and> question_crud_get
     \<lparr>questions = [\<lparr>q_id = 1, q_question = ''Q'', q_answer = None, q_level = Some ''Remember'',
        q_type = None, q_options = None, q_context = None, q_bank_id = None\<rparr>,
       \<lparr>q_id = 2, q_question = ''Q'', q_answer = None, q_level = Some ''Remember'',
        q_type = None, q_options = None, q_context = None, q_bank_id = None\<rparr>,
       \<lparr>q_id = 3, q_question = ''Q'', q_answer = None, q_level = Some ''Apply'',
        q_type = None, q_options = None, q_context = None, q_bank_id = None\<rparr>],
      question_banks = []\<rparr> 3 \<noteq> None
   \<and> sum_values [(''remember'', 1), (''Apply'', 5), (''Create'', -2)] = sum_values [(''multiple_choice'', 4)]
   \<and> (\<exists>r. create_examination capitalize_ascii json_loads
     \<lparr>questions = [\<lparr>q_id = 1, q_question = ''Q'', q_answer = None, q_level = Some ''Remember'',
        q_type = None, q_options = None, q_context = None, q_bank_id = None\<rparr>,
       \<lparr>q_id = 2, q_question = ''Q'', q_answer = None, q_level = Some ''Remember'',
        q_type = None, q_options = None, q_context = None, q_bank_id = None\<rparr>,
       \<lparr>q_id = 3, q_question = ''Q'', q_answer = None, q_level = Some ''Apply'',
        q_type = None, q_options = None, q_context = None, q_bank_id = None\<rparr>],
      question_banks = []\<rparr>
     \<lparr>c_question_ids = Some [1, 2, 3], c_title = None,
      c_bloom_levels = Some [(''remember'', 1), (''Apply'', 5), (''Create'', -2)],
      c_question_types = Some [(''multiple_choice'', 4)]\<rparr> [1] = Inr r
     \<and> total_questions (examination r) = 2)"
proof -
  let ?D = "\<lparr>questions = [\<lparr>q_id = 1, q_question = ''Q'', q_answer = None, q_level = Some ''Remember'',
        q_type = None, q_options = None, q_context = None, q_bank_id = None\<rparr>,
       \<lparr>q_id = 2, q_question = ''Q'', q_answer = None, q_level = Some ''Remember'',
        q_type = None, q_options = None, q_context = None, q_bank_id = None\<rparr>,
       \<lparr>q_id = 3, q_question = ''Q'', q_answer = None, q_level = Some ''Apply'',
        q_type = None, q_options = None, q_context = None, q_bank_id = None\<rparr>],
      question_banks = []\<rparr>"
  let ?C = "\<lparr>c_question_ids = Some [1, 2, 3], c_title = None,
      c_bloom_levels = Some [(''remember'', 1), (''Apply'', 5), (''Create'', -2)],
      c_question_types = Some [(''multiple_choice'', 4)]\<rparr>"
  have ids: "cfg_question_ids ?C = [1, 2, 3]"
    and bloom: "cfg_bloom_levels ?C = [(''remember'', 1), (''Apply'', 5), (''Create'', -2)]"
    and types: "cfg_question_types ?C = [(''multiple_choice'', 4)]"
    by (simp_all add: cfg_question_ids_def cfg_bloom_levels_def cfg_question_types_def)
  have h1: "cfg_question_ids ?C \<noteq> []" by (simp add: ids)
  have h2: "\<forall>i \<in> set (cfg_question_ids ?C). question_crud_get ?D i \<noteq> None"
    by (simp add: ids question_crud_get_def)
  have h3: "sum_values (cfg_bloom_levels ?C) = sum_values (cfg_question_types ?C)"
    by (simp add: bloom types sum_values_def)
  from assembled_total [OF h1 h2 h3, of capitalize_ascii json_loads "[1]"]
  obtain r where res: "create_examination capitalize_ascii json_loads ?D ?C [1] = Inr r"
    and total: "int (total_questions (examination r)) =
          (\<Sum>entry \<leftarrow> cfg_bloom_levels ?C.
             max 0 (min (snd entry)
               (int (length (filter (\<lambda>q. q_level q = Some (capitalize_ascii (fst entry)))
                                (resolve_questions ?D (cfg_question_ids ?C)))))))"
    by blast
  have "(\<Sum>entry \<leftarrow> cfg_bloom_levels ?C.
             max 0 (min (snd entry)
               (int (length (filter (\<lambda>q. q_level q = Some (capitalize_ascii (fst entry)))
                                (resolve_questions ?D (cfg_question_ids ?C))))))) = 2"
    by (simp add: ids bloom question_crud_get_def ascii_upper_def ascii_lower_def)
  with total have "total_questions (examination r) = 2" by simp
  with res h1 h2 h3 show ?thesis
    by (simp add: ids bloom types question_crud_get_def)
qed

text \<open>
  C1 as stated fails on a negative count: the identifier resolves and both quotas sum to
  0, the entry \<open>(Remember, -1)\<close> contributes nothing and \<open>(Apply, 1)\<close> one question, so
  \<open>total_questions\<close> is 1, while the sum of \<open>min requested pool\<close> is \<open>-1 + 1 = 0\<close>.
\<close>

theorem assembled_total_negative_quota_counterexample:
  "question_crud_get
     \<lparr>questions = [\<lparr>q_id = 1, q_question = ''Q'', q_answer = None, q_level = Some ''Apply'',
        q_type = None, q_options = None, q_context = None, q_bank_id = None\<rparr>],
      question_banks = []\<rparr> 1 \<noteq> None
   \<and> sum_values [(''Remember'', -1), (''Apply'', 1)] = sum_values [(''multiple_choice'', 0)]
   \<and> create_examination capitalize_ascii json_loads
     \<lparr>questions = [\<lparr>q_id = 1, q_question = ''Q'', q_answer = None, q_level = Some ''Apply'',
        q_type = None, q_options = None, q_context = None, q_bank_id = None\<rparr>],
      question_banks = []\<rparr>
     \<lparr>c_question_ids = Some [1], c_title = None,
      c_bloom_levels = Some [(''Remember'', -1), (''Apply'', 1)],
      c_question_types = Some [(''multiple_choice'', 0)]\<rparr> [] =
     Inr \<lparr>success = True,
      examination = \<lparr>e_title = ''New Examination'',
        e_questions = [\<lparr>p_id = 1, p_question = ''Q'', p_answer = None, p_level = Some ''Apply'',
        p_type = None, p_options = None\<rparr>],
        total_questions = 1\<rparr>\<rparr>
   \<and> (\<Sum>entry \<leftarrow> [(''Remember'', -1), (''Apply'', 1)].
         min (snd entry)
           (int (length (filter (\<lambda>q. q_level q = Some (capitalize_ascii (fst entry)))
              (resolve_questions
     \<lparr>questions = [\<lparr>q_id = 1, q_question = ''Q'', q_answer = None, q_level = Some ''Apply'',
        q_type = None, q_options = None, q_context = None, q_bank_id = None\<rparr>],
      question_banks = []\<rparr> [1])))))
       = 0"
  by (simp add: create_examination_def cfg_question_ids_def cfg_bloom_levels_def
        cfg_question_types_def cfg_title_def sum_values_def question_crud_get_def
        group_append_def select_level_def level_pool_def random_sample_def
        format_question_def ascii_upper_def ascii_lower_def)

text \<open>
  C2 (as amended). The grouping keys the resolved questions by their stored level as it
  is; what is capitalized is the key of the level quota, at the lookup. So the pool drawn
  from for a quota key holds exactly the resolved questions whose stored level equals the
  capitalized key, in the order they were resolved, whatever function capitalizes.
\<close>

theorem pool_of_quota_key:
  "level_pool capitalize (fst (group_questions (resolve_questions d ids) (Map.empty, Map.empty))) level
     = filter (\<lambda>q. q_level q = Some (capitalize level)) (resolve_questions d ids)"
  by (rule level_pool_group_questions)

text \<open>
  C2 as stated fails: a question stored with the level \<open>remember\<close> differs from the
  quota key \<open>Remember\<close> only in letter case, yet the pool for that key is empty and the
  examination comes back without questions.
\<close>

theorem stored_level_not_normalized_counterexample:
  "map ascii_lower ''remember'' = map ascii_lower ''Remember''
   \<and> resolve_questions
     \<lparr>questions = [\<lparr>q_id = 1, q_question = ''Q'', q_answer = None, q_level = Some ''remember'',
        q_type = None, q_options = None, q_context = None, q_bank_id = None\<rparr>],
      question_banks = []\<rparr> [1]
     = [\<lparr>q_id = 1, q_question = ''Q'', q_answer = None, q_level = Some ''remember'',
        q_type = None, q_options = None, q_context = None, q_bank_id = None\<rparr>]
   \<and> level_pool capitalize_ascii (fst (group_questions (resolve_questions
     \<lparr>questions = [\<lparr>q_id = 1, q_question = ''Q'', q_answer = None, q_level = Some ''remember'',
        q_type = None, q_options = None, q_context = None, q_bank_id = None\<rparr>],
      question_banks = []\<rparr> [1]) (Map.empty, Map.empty))) ''Remember'' = []
   \<and> create_examination capitalize_ascii json_loads
     \<lparr>questions = [\<lparr>q_id = 1, q_question = ''Q'', q_answer = None, q_level = Some ''remember'',
        q_type = None, q_options = None, q_context = None, q_bank_id = None\<rparr>],
      question_banks = []\<rparr>
     \<lparr>c_question_ids = Some [1], c_title = None,
      c_bloom_levels = Some [(''Remember'', 1)],
      c_question_types = Some [(''multiple_choice'', 1)]\<rparr> [] =
     Inr \<lparr>success = True,
      examination = \<lparr>e_title = ''New Examination'',
        e_questions = [],
        total_questions = 0\<rparr>\<rparr>"
  by (simp add: create_examination_def cfg_question_ids_def cfg_bloom_levels_def
        cfg_question_types_def cfg_title_def sum_values_def question_crud_get_def
        group_append_def select_level_def level_pool_def random_sample_def
        format_question_def ascii_upper_def ascii_lower_def)

text \<open>
  C5 (as amended). When no identifier occurs twice in the request and no two keys of the
  level quota have the same capitalized form (under the function the code applies to the
  keys), a successful assembly returns no question identifier more than once.
\<close>

theorem no_repeated_question:
  assumes "distinct (cfg_question_ids cfg)"
    and "distinct (map (\<lambda>entry. capitalize (fst entry)) (cfg_bloom_levels cfg))"
    and "create_examination capitalize loads d cfg g = Inr r"
  shows "distinct (map p_id (e_questions (examination r)))"
proof -
  let ?qs = "resolve_questions d (cfg_question_ids cfg)"
  from assms(3) have c1: "cfg_question_ids cfg \<noteq> []"
    and c2: "sum_values (cfg_bloom_levels cfg) = sum_values (cfg_question_types cfg)"
    and c3: "?qs \<noteq> []"
    by (auto simp: create_examination_def Let_def split: if_splits)
  from create_examination_success [OF c1 c2 c3, of capitalize loads g] assms(3)
  obtain sels where
    r: "r = \<lparr>success = True,
                 examination =
                   \<lparr>e_title = cfg_title cfg,
                    e_questions = map (format_question loads) (concat sels),
                    total_questions = length (concat sels)\<rparr>\<rparr>"
    and all: "list_all2
               (\<lambda>entry sel.
                  mset sel \<subseteq># mset (filter (\<lambda>q. q_level q = Some (capitalize (fst entry))) ?qs)
                  \<and> int (length sel) =
                      max 0 (min (snd entry)
                        (int (length (filter (\<lambda>q. q_level q = Some (capitalize (fst entry))) ?qs)))))
               (cfg_bloom_levels cfg) sels"
    by auto
  from concat_selections_subseteq [OF all assms(2)]
  have "mset (concat sels) \<subseteq>#
           mset (filter (\<lambda>q. q_level q \<in> (\<lambda>entry. Some (capitalize (fst entry))) ` set (cfg_bloom_levels cfg)) ?qs)" .
  also have "\<dots> \<subseteq># mset ?qs" by simp
  finally have sub: "mset (concat sels) \<subseteq># mset ?qs" .
  from assms(1) have "distinct (map q_id ?qs)"
    by (simp add: resolve_questions_ids)
  with sub have "distinct (map q_id (concat sels))" by (rule distinct_map_mset_subseteq)
  moreover have "map p_id (e_questions (examination r)) = map q_id (concat sels)"
    by (simp add: r format_question_def)
  ultimately show ?thesis by (simp only:)
qed

text \<open>An instance with three identifiers and three quota keys.\<close>

theorem no_repeated_question_witness:
  "distinct (cfg_question_ids
     \<lparr>c_question_ids = Some [1, 2, 3], c_title = None,
      c_bloom_levels = Some [(''remember'', 1), (''Apply'', 5), (''Create'', -2)],
      c_question_types = Some [(''multiple_choice'', 4)]\<rparr>)
   \<and> distinct (map (\<lambda>entry. capitalize_ascii (fst entry)) (cfg_bloom_levels
     \<lparr>c_question_ids = Some [1, 2, 3], c_title = None,
      c_bloom_levels = Some [(''remember'', 1), (''Apply'', 5), (''Create'', -2)],
      c_question_types = Some [(''multiple_choice'', 4)]\<rparr>))
   \<and> create_examination capitalize_ascii json_loads
     \<lparr>questions = [\<lparr>q_id = 1, q_question = ''Q'', q_answer = None, q_level = Some ''Remember'',
        q_type = None, q_options = None, q_context = None, q_bank_id = None\<rparr>,
       \<lparr>q_id = 2, q_question = ''Q'', q_answer = None, q_level = Some ''Remember'',
        q_type = None, q_options = None, q_context = None, q_bank_id = None\<rparr>,
       \<lparr>q_id = 3, q_question = ''Q'', q_answer = None, q_level = Some ''Apply'',
        q_type = None, q_options = None, q_context = None, q_bank_id = None\<rparr>],
      question_banks = []\<rparr>
     \<lparr>c_question_ids = Some [1, 2, 3], c_title = None,
      c_bloom_levels = Some [(''remember'', 1), (''Apply'', 5), (''Create'', -2)],
      c_question_types = Some [(''multiple_choice'', 4)]\<rparr> [1] =
     Inr \<lparr>success = True,
      examination = \<lparr>e_title = ''New Examination'',
        e_questions = [\<lparr>p_id = 2, p_question = ''Q'', p_answer = None, p_level = Some ''Remember'',
        p_type = None, p_options = None\<rparr>,
       \<lparr>p_id = 3, p_question = ''Q'', p_answer = None, p_level = Some ''Apply'',
        p_type = None, p_options = None\<rparr>],
        total_questions = 2\<rparr>\<rparr>
   \<and> distinct (map p_id (e_questions (examination
     \<lparr>success = True,
      examination = \<lparr>e_title = ''New Examination'',
        e_questions = [\<lparr>p_id = 2, p_question = ''Q'', p_answer = None, p_level = Some ''Remember'',
        p_type = None, p_options = None\<rparr>,
       \<lparr>p_id = 3, p_question = ''Q'', p_answer = None, p_level = Some ''Apply'',
        p_type = None, p_options = None\<rparr>],
        total_questions = 2\<rparr>\<rparr>)))"
proof -
  let ?D = "\<lparr>questions = [\<lparr>q_id = 1, q_question = ''Q'', q_answer = None, q_level = Some ''Remember'',
        q_type = None, q_options = None, q_context = None, q_bank_id = None\<rparr>,
       \<lparr>q_id = 2, q_question = ''Q'', q_answer = None, q_level = Some ''Remember'',
        q_type = None, q_options = None, q_context = None, q_bank_id = None\<rparr>,
       \<lparr>q_id = 3, q_question = ''Q'', q_answer = None, q_level = Some ''Apply'',
        q_type = None, q_options = None, q_context = None, q_bank_id = None\<rparr>],
      question_banks = []\<rparr>"
  let ?C = "\<lparr>c_question_ids = Some [1, 2, 3], c_title = None,
      c_bloom_levels = Some [(''remember'', 1), (''Apply'', 5), (''Create'', -2)],
      c_question_types = Some [(''multiple_choice'', 4)]\<rparr>"
  let ?R = "\<lparr>success = True,
      examination = \<lparr>e_title = ''New Examination'',
        e_questions = [\<lparr>p_id = 2, p_question = ''Q'', p_answer = None, p_level = Some ''Remember'',
        p_type = None, p_options = None\<rparr>,
       \<lparr>p_id = 3, p_question = ''Q'', p_answer = None, p_level = Some ''Apply'',
        p_type = None, p_options = None\<rparr>],
        total_questions = 2\<rparr>\<rparr>"
  have h1: "distinct (cfg_question_ids ?C)" by (simp add: cfg_question_ids_def)
  have h2: "distinct (map (\<lambda>entry. capitalize_ascii (fst entry)) (cfg_bloom_levels ?C))"
    by (simp add: cfg_bloom_levels_def ascii_upper_def ascii_lower_def)
  have res: "create_examination capitalize_ascii json_loads ?D ?C [1] = Inr ?R"
    by (simp add: create_examination_def cfg_question_ids_def cfg_bloom_levels_def
        cfg_question_types_def cfg_title_def sum_values_def question_crud_get_def
        group_append_def select_level_def level_pool_def random_sample_def
        format_question_def ascii_upper_def ascii_lower_def)
  from no_repeated_question [OF h1 h2 res] h1 h2 res show ?thesis by (simp only: simp_thms)
qed

text \<open>
  C5 as stated fails: an identifier listed twice is resolved twice, the pool of its level
  holds the question twice, and a quota of two selects both copies.
\<close>

theorem repeated_id_selected_twice_counterexample:
  "create_examination capitalize_ascii json_loads
     \<lparr>questions = [\<lparr>q_id = 1, q_question = ''Q'', q_answer = None, q_level = Some ''Remember'',
        q_type = None, q_options = None, q_context = None, q_bank_id = None\<rparr>],
      question_banks = []\<rparr>
     \<lparr>c_question_ids = Some [1, 1], c_title = None,
      c_bloom_levels = Some [(''Remember'', 2)],
      c_question_types = Some [(''multiple_choice'', 2)]\<rparr> [] =
     Inr \<lparr>success = True,
      examination = \<lparr>e_title = ''New Examination'',
        e_questions = [\<lparr>p_id = 1, p_question = ''Q'', p_answer = None, p_level = Some ''Remember'',
        p_type = None, p_options = None\<rparr>,
       \<lparr>p_id = 1, p_question = ''Q'', p_answer = None, p_level = Some ''Remember'',
        p_type = None, p_options = None\<rparr>],
        total_questions = 2\<rparr>\<rparr>
   \<and> \<not> distinct (map p_id (e_questions (examination
     \<lparr>success = True,
      examination = \<lparr>e_title = ''New Examination'',
        e_questions = [\<lparr>p_id = 1, p_question = ''Q'', p_answer = None, p_level = Some ''Remember'',
        p_type = None, p_options = None\<rparr>,
       \<lparr>p_id = 1, p_question = ''Q'', p_answer = None, p_level = Some ''Remember'',
        p_type = None, p_options = None\<rparr>],
        total_questions = 2\<rparr>\<rparr>)))"
  by (simp add: create_examination_def cfg_question_ids_def cfg_bloom_levels_def
        cfg_question_types_def cfg_title_def sum_values_def question_crud_get_def
        group_append_def select_level_def level_pool_def random_sample_def
        format_question_def ascii_upper_def ascii_lower_def numeral_2_eq_2)

section \<open>Properties of the payload\<close>

text \<open>
  C8 (as amended). A payload has an \<open>options\<close> entry exactly when the stored options
  text is neither null nor empty. For such a text the entry is what the deserializer
  returns and, when the deserializer raises, the empty dictionary. No exception leaves
  the assembly: \<open>create_examination\<close> never ends in the 500 error, and every payload of a
  successful result is built in this way from a stored question.
\<close>

theorem options_best_effort:
  "((p_options (format_question loads q) \<noteq> None) = (q_options q \<noteq> None \<and> q_options q \<noteq> Some []))
   \<and> (q_options q = Some s \<and> s \<noteq> [] \<longrightarrow>
        p_options (format_question loads q) = Some (case loads s of None \<Rightarrow> JObject [] | Some v \<Rightarrow> v))
   \<and> create_examination capitalize loads d cfg g \<noteq> Inl InternalError
   \<and> (create_examination capitalize loads d cfg g = Inr r \<longrightarrow>
        (\<exists>sel. set sel \<subseteq> set (questions d)
           \<and> e_questions (examination r) = map (format_question loads) sel))"
proof (intro conjI impI)
  show "(p_options (format_question loads q) \<noteq> None) = (q_options q \<noteq> None \<and> q_options q \<noteq> Some [])"
    by (simp add: format_question_def split: option.splits)
next
  assume "q_options q = Some s \<and> s \<noteq> []"
  then show "p_options (format_question loads q) = Some (case loads s of None \<Rightarrow> JObject [] | Some v \<Rightarrow> v)"
    by (simp add: format_question_def split: option.splits)
next
  show "create_examination capitalize loads d cfg g \<noteq> Inl InternalError"
    by (rule create_examination_no_internal_error)
next
  assume "create_examination capitalize loads d cfg g = Inr r"
  then show "\<exists>sel. set sel \<subseteq> set (questions d)
           \<and> e_questions (examination r) = map (format_question loads) sel"
    by (rule create_examination_payloads)
qed

text \<open>An instance: a stored options text that does not deserialize.\<close>

theorem options_best_effort_witness:
  "json_loads ''{oops'' = None
   \<and> p_options (format_question json_loads
     \<lparr>q_id = 1, q_question = ''Q'', q_answer = None, q_level = Some ''Remember'',
        q_type = None, q_options = Some ''{oops'', q_context = None, q_bank_id = None\<rparr>) = Some (JObject [])
   \<and> create_examination capitalize_ascii json_loads
     \<lparr>questions = [\<lparr>q_id = 1, q_question = ''Q'', q_answer = None, q_level = Some ''Remember'',
        q_type = None, q_options = Some ''{oops'', q_context = None, q_bank_id = None\<rparr>],
      question_banks = []\<rparr>
     \<lparr>c_question_ids = Some [1], c_title = None,
      c_bloom_levels = Some [(''Remember'', 1)],
      c_question_types = Some [(''multiple_choice'', 1)]\<rparr> [] =
     Inr \<lparr>success = True,
      examination = \<lparr>e_title = ''New Examination'',
        e_questions = [\<lparr>p_id = 1, p_question = ''Q'', p_answer = None, p_level = Some ''Remember'',
        p_type = None, p_options = Some (JObject [])\<rparr>],
        total_questions = 1\<rparr>\<rparr>
   \<and> (\<exists>sel. set sel \<subseteq> set [\<lparr>q_id = 1, q_question = ''Q'', q_answer = None, q_level = Some ''Remember'',
        q_type = None, q_options = Some ''{oops'', q_context = None, q_bank_id = None\<rparr>]
        \<and> [\<lparr>p_id = 1, p_question = ''Q'', p_answer = None, p_level = Some ''Remember'',
        p_type = None, p_options = Some (JObject [])\<rparr>] = map (format_question json_loads) sel)"
proof -
  let ?Q = "\<lparr>q_id = 1, q_question = ''Q'', q_answer = None, q_level = Some ''Remember'',
        q_type = None, q_options = Some ''{oops'', q_context = None, q_bank_id = None\<rparr>"
  let ?D = "\<lparr>questions = [\<lparr>q_id = 1, q_question = ''Q'', q_answer = None, q_level = Some ''Remember'',
        q_type = None, q_options = Some ''{oops'', q_context = None, q_bank_id = None\<rparr>],
      question_banks = []\<rparr>"
  let ?C = "\<lparr>c_question_ids = Some [1], c_title = None,
      c_bloom_levels = Some [(''Remember'', 1)],
      c_question_types = Some [(''multiple_choice'', 1)]\<rparr>"
  let ?R = "\<lparr>success = True,
      examination = \<lparr>e_title = ''New Examination'',
        e_questions = [\<lparr>p_id = 1, p_question = ''Q'', p_answer = None, p_level = Some ''Remember'',
        p_type = None, p_options = Some (JObject [])\<rparr>],
        total_questions = 1\<rparr>\<rparr>"
  have bad: "json_loads ''{oops'' = None" by code_simp
  have res: "create_examination capitalize_ascii json_loads ?D ?C [] = Inr ?R"
    by (simp add: bad create_examination_def cfg_question_ids_def cfg_bloom_levels_def
        cfg_question_types_def cfg_title_def sum_values_def question_crud_get_def
        group_append_def select_level_def level_pool_def random_sample_def
        format_question_def ascii_upper_def ascii_lower_def)
  from options_best_effort [of json_loads ?Q "''{oops''" capitalize_ascii ?D ?C "[]" ?R] bad res
  show ?thesis by simp
qed

text \<open>
  C8 as stated fails for a stored text that deserializes to something other than a
  dictionary: \<^verbatim>\<open>[1]\<close> is not a serialized mapping, and the payload carries the list
  \<open>[1]\<close>, not the empty dictionary.
\<close>

theorem options_not_a_mapping_counterexample:
  "json_loads ''[1]'' = Some (JArray [JInt 1])
   \<and> JArray [JInt 1] \<noteq> JObject []
   \<and> create_examination capitalize_ascii json_loads
     \<lparr>questions = [\<lparr>q_id = 1, q_question = ''Q'', q_answer = None, q_level = Some ''Remember'',
        q_type = None, q_options = Some ''[1]'', q_context = None, q_bank_id = None\<rparr>],
      question_banks = []\<rparr>
     \<lparr>c_question_ids = Some [1], c_title = None,
      c_bloom_levels = Some [(''Remember'', 1)],
      c_question_types = Some [(''multiple_choice'', 1)]\<rparr> [] =
     Inr \<lparr>success = True,
      examination = \<lparr>e_title = ''New Examination'',
        e_questions = [\<lparr>p_id = 1, p_question = ''Q'', p_answer = None, p_level = Some ''Remember'',
        p_type = None, p_options = Some (JArray [JInt 1])\<rparr>],
        total_questions = 1\<rparr>\<rparr>"
proof -
  have good: "json_loads ''[1]'' = Some (JArray [JInt 1])" by code_simp
  then show ?thesis
    by (simp add: create_examination_def cfg_question_ids_def cfg_bloom_levels_def
        cfg_question_types_def cfg_title_def sum_values_def question_crud_get_def
        group_append_def select_level_def level_pool_def random_sample_def
        format_question_def ascii_upper_def ascii_lower_def)
qed

section \<open>Properties of the bank operations\<close>

text \<open>
  C7. When the bank exists and its owner is not the caller, \<open>add_questions_to_bank\<close> and
  \<open>remove_questions_from_bank\<close> both fail with \<open>Forbidden\<close> and return the store as it
  was: the check precedes the loop that updates the questions.
\<close>

theorem non_owner_forbidden:
  assumes "bank_crud_get d bank_id = Some bank"
    and "b_user_id bank \<noteq> Some (u_id current_user)"
  shows "add_questions_to_bank d bank_id question_ids current_user = (d, Inl Forbidden)
       \<and> remove_questions_from_bank d bank_id question_ids current_user = (d, Inl Forbidden)"
  using assms by (simp add: add_questions_to_bank_def remove_questions_from_bank_def)

theorem non_owner_forbidden_witness:
  "bank_crud_get
     \<lparr>questions = [\<lparr>q_id = 5, q_question = ''Q'', q_answer = None, q_level = None,
                    q_type = None, q_options = None, q_context = None, q_bank_id = Some 1\<rparr>],
      question_banks = [\<lparr>b_id = 1, b_name = ''Math'', b_description = None, b_user_id = Some 1\<rparr>]\<rparr> 1
     = Some \<lparr>b_id = 1, b_name = ''Math'', b_description = None, b_user_id = Some 1\<rparr>
   \<and> add_questions_to_bank
     \<lparr>questions = [\<lparr>q_id = 5, q_question = ''Q'', q_answer = None, q_level = None,
                    q_type = None, q_options = None, q_context = None, q_bank_id = Some 1\<rparr>],
      question_banks = [\<lparr>b_id = 1, b_name = ''Math'', b_description = None, b_user_id = Some 1\<rparr>]\<rparr>
     1 [5] \<lparr>u_id = 2\<rparr>
     = (\<lparr>questions = [\<lparr>q_id = 5, q_question = ''Q'', q_answer = None, q_level = None,
                    q_type = None, q_options = None, q_context = None, q_bank_id = Some 1\<rparr>],
      question_banks = [\<lparr>b_id = 1, b_name = ''Math'', b_description = None, b_user_id = Some 1\<rparr>]\<rparr>,
        Inl Forbidden)
   \<and> remove_questions_from_bank
     \<lparr>questions = [\<lparr>q_id = 5, q_question = ''Q'', q_answer = None, q_level = None,
                    q_type = None, q_options = None, q_context = None, q_bank_id = Some 1\<rparr>],
      question_banks = [\<lparr>b_id = 1, b_name = ''Math'', b_description = None, b_user_id = Some 1\<rparr>]\<rparr>
     1 [5] \<lparr>u_id = 2\<rparr>
     = (\<lparr>questions = [\<lparr>q_id = 5, q_question = ''Q'', q_answer = None, q_level = None,
                    q_type = None, q_options = None, q_context = None, q_bank_id = Some 1\<rparr>],
      question_banks = [\<lparr>b_id = 1, b_name = ''Math'', b_description = None, b_user_id = Some 1\<rparr>]\<rparr>,
        Inl Forbidden)"
  using non_owner_forbidden [of
     "\<lparr>questions = [\<lparr>q_id = 5, q_question = ''Q'', q_answer = None, q_level = None,
                    q_type = None, q_options = None, q_context = None, q_bank_id = Some 1\<rparr>],
      question_banks = [\<lparr>b_id = 1, b_name = ''Math'', b_description = None, b_user_id = Some 1\<rparr>]\<rparr>"
     1 "\<lparr>b_id = 1, b_name = ''Math'', b_description = None, b_user_id = Some 1\<rparr>"
     "\<lparr>u_id = 2\<rparr>" "[5]"]
  by (simp add: bank_crud_get_def)

text \<open>
  C9. For a bank that exists and has no owner, \<open>save_questions_to_bank\<close> never answers
  \<open>Forbidden\<close> to a request that names it, whoever the caller is. When the request
  reaches the ownership check for that bank (its bank identifier is not 0 and its list of
  question identifiers is not empty), the call succeeds: every stored question whose
  identifier is in the list gets that bank, the others are left as they were, and the
  count is the number of listed identifiers that resolve.
\<close>

theorem unowned_bank_skips_ownership_check:
  assumes "bank_crud_get d bank_id = Some bank"
    and "b_user_id bank = None"
  shows "snd (save_questions_to_bank d
            \<lparr>s_question_ids = ids, s_bank_id = Some bank_id, s_bank_name = bank_name\<rparr> current_user)
           \<noteq> Inl Forbidden
       \<and> (bank_id \<noteq> 0 \<and> question_ids \<noteq> [] \<longrightarrow>
           save_questions_to_bank d
             \<lparr>s_question_ids = Some question_ids, s_bank_id = Some bank_id, s_bank_name = bank_name\<rparr>
             current_user
           = (d\<lparr>questions :=
                  map (\<lambda>q. if q_id q \<in> set question_ids then q\<lparr>q_bank_id := Some bank_id\<rparr> else q)
                    (questions d)\<rparr>,
              Inr \<lparr>r_success = True,
                   r_updated_count = length (filter (\<lambda>i. question_crud_get d i \<noteq> None) question_ids),
                   r_bank_id = bank_id, r_bank_name = b_name bank\<rparr>))"
proof (intro conjI impI)
  let ?req = "\<lparr>s_question_ids = ids, s_bank_id = Some bank_id, s_bank_name = bank_name\<rparr>"
  show "snd (save_questions_to_bank d ?req current_user) \<noteq> Inl Forbidden"
  proof (cases "bank_id = 0 \<and> bank_name \<noteq> None \<and> bank_name \<noteq> Some []")
    case True
    then obtain name where nm: "bank_name = Some name" "name \<noteq> []" by auto
    obtain d' nb where c: "bank_crud_create d name None (Some (u_id current_user)) = (d', nb)"
      by (cases "bank_crud_create d name None (Some (u_id current_user))")
    from bank_crud_get_created [OF c]
    have "bank_crud_get d' (b_id nb) = Some nb" "b_user_id nb = Some (u_id current_user)" "b_id nb \<noteq> 0"
      by simp_all
    with True nm c show ?thesis
      by (simp add: save_questions_to_bank_def falsy_id_def Let_def split: prod.splits)
  next
    case False
    with assms show ?thesis
      by (auto simp: save_questions_to_bank_def falsy_id_def Let_def split: prod.splits option.splits)
  qed
next
  assume "bank_id \<noteq> 0 \<and> question_ids \<noteq> []"
  with assms show "save_questions_to_bank d
             \<lparr>s_question_ids = Some question_ids, s_bank_id = Some bank_id, s_bank_name = bank_name\<rparr>
             current_user
           = (d\<lparr>questions :=
                  map (\<lambda>q. if q_id q \<in> set question_ids then q\<lparr>q_bank_id := Some bank_id\<rparr> else q)
                    (questions d)\<rparr>,
              Inr \<lparr>r_success = True,
                   r_updated_count = length (filter (\<lambda>i. question_crud_get d i \<noteq> None) question_ids),
                   r_bank_id = bank_id, r_bank_name = b_name bank\<rparr>)"
    by (simp add: save_questions_to_bank_def falsy_id_def Let_def add_loop_closed)
qed

text \<open>
  An instance: a bank without owner, a caller with identifier 7, two stored questions and
  one identifier that does not resolve.
\<close>

theorem unowned_bank_skips_ownership_check_witness:
  "bank_crud_get
     \<lparr>questions = [\<lparr>q_id = 1, q_question = ''Q'', q_answer = None, q_level = None,
        q_type = None, q_options = None, q_context = None, q_bank_id = None\<rparr>,
       \<lparr>q_id = 2, q_question = ''Q'', q_answer = None, q_level = None,
        q_type = None, q_options = None, q_context = None, q_bank_id = Some 8\<rparr>],
      question_banks = [\<lparr>b_id = 3, b_name = ''Shared'', b_description = None, b_user_id = None\<rparr>]\<rparr> 3
     = Some \<lparr>b_id = 3, b_name = ''Shared'', b_description = None, b_user_id = None\<rparr>
   \<and> b_user_id \<lparr>b_id = 3, b_name = ''Shared'', b_description = None, b_user_id = None\<rparr> = None
   \<and> save_questions_to_bank
     \<lparr>questions = [\<lparr>q_id = 1, q_question = ''Q'', q_answer = None, q_level = None,
        q_type = None, q_options = None, q_context = None, q_bank_id = None\<rparr>,
       \<lparr>q_id = 2, q_question = ''Q'', q_answer = None, q_level = None,
        q_type = None, q_options = None, q_context = None, q_bank_id = Some 8\<rparr>],
      question_banks = [\<lparr>b_id = 3, b_name = ''Shared'', b_description = None, b_user_id = None\<rparr>]\<rparr>
     \<lparr>s_question_ids = Some [1, 9, 2], s_bank_id = Some 3, s_bank_name = None\<rparr> \<lparr>u_id = 7\<rparr>
     = (\<lparr>questions = [\<lparr>q_id = 1, q_question = ''Q'', q_answer = None, q_level = None,
        q_type = None, q_options = None, q_context = None, q_bank_id = Some 3\<rparr>,
       \<lparr>q_id = 2, q_question = ''Q'', q_answer = None, q_level = None,
        q_type = None, q_options = None, q_context = None, q_bank_id = Some 3\<rparr>],
      question_banks = [\<lparr>b_id = 3, b_name = ''Shared'', b_description = None, b_user_id = None\<rparr>]\<rparr>,
        Inr \<lparr>r_success = True, r_updated_count = 2, r_bank_id = 3, r_bank_name = ''Shared''\<rparr>)"
proof -
  let ?D = "\<lparr>questions = [\<lparr>q_id = 1, q_question = ''Q'', q_answer = None, q_level = None,
        q_type = None, q_options = None, q_context = None, q_bank_id = None\<rparr>,
       \<lparr>q_id = 2, q_question = ''Q'', q_answer = None, q_level = None,
        q_type = None, q_options = None, q_context = None, q_bank_id = Some 8\<rparr>],
      question_banks = [\<lparr>b_id = 3, b_name = ''Shared'', b_description = None, b_user_id = None\<rparr>]\<rparr>"
  let ?B = "\<lparr>b_id = 3, b_name = ''Shared'', b_description = None, b_user_id = None\<rparr>"
  have h1: "bank_crud_get ?D 3 = Some ?B" by (simp add: bank_crud_get_def)
  have h2: "b_user_id ?B = None" by simp
  from unowned_bank_skips_ownership_check [OF h1 h2, of None None "\<lparr>u_id = 7\<rparr>" "[1, 9, 2]"] h1 h2
  show ?thesis by (simp add: question_crud_get_def)
qed

text \<open>
  C6. \<open>create_bank\<close> looks at the first bank of the requested name only. After user 1
  and then user 2 have each created a bank named \<open>Math\<close>, user 2 asks for \<open>Math\<close>
  again: the bank found by name belongs to user 1, so the request is accepted and user 2
  owns two banks of that name.
\<close>

theorem create_bank_second_owner_duplicate:
  "create_bank \<lparr>questions = [], question_banks = []\<rparr> \<lparr>bc_name = ''Math'', bc_description = None, bc_user_id = None\<rparr> \<lparr>u_id = 1\<rparr>
     = (\<lparr>questions = [], question_banks = [\<lparr>b_id = 1, b_name = ''Math'', b_description = None, b_user_id = Some 1\<rparr>]\<rparr>,
        Inr \<lparr>b_id = 1, b_name = ''Math'', b_description = None, b_user_id = Some 1\<rparr>)
   \<and> create_bank \<lparr>questions = [], question_banks = [\<lparr>b_id = 1, b_name = ''Math'', b_description = None, b_user_id = Some 1\<rparr>]\<rparr> \<lparr>bc_name = ''Math'', bc_description = None, bc_user_id = None\<rparr> \<lparr>u_id = 2\<rparr>
     = (\<lparr>questions = [], question_banks = [\<lparr>b_id = 1, b_name = ''Math'', b_description = None, b_user_id = Some 1\<rparr>,
          \<lparr>b_id = 2, b_name = ''Math'', b_description = None, b_user_id = Some 2\<rparr>]\<rparr>,
        Inr \<lparr>b_id = 2, b_name = ''Math'', b_description = None, b_user_id = Some 2\<rparr>)
   \<and> create_bank \<lparr>questions = [], question_banks = [\<lparr>b_id = 1, b_name = ''Math'', b_description = None, b_user_id = Some 1\<rparr>,
          \<lparr>b_id = 2, b_name = ''Math'', b_description = None, b_user_id = Some 2\<rparr>]\<rparr> \<lparr>bc_name = ''Math'', bc_description = None, bc_user_id = None\<rparr> \<lparr>u_id = 2\<rparr>
     = (\<lparr>questions = [], question_banks = [\<lparr>b_id = 1, b_name = ''Math'', b_description = None, b_user_id = Some 1\<rparr>,
          \<lparr>b_id = 2, b_name = ''Math'', b_description = None, b_user_id = Some 2\<rparr>,
          \<lparr>b_id = 3, b_name = ''Math'', b_description = None, b_user_id = Some 2\<rparr>]\<rparr>,
        Inr \<lparr>b_id = 3, b_name = ''Math'', b_description = None, b_user_id = Some 2\<rparr>)"
  by (simp add: create_bank_def get_by_name_def bank_crud_create_def fresh_bank_id_def Let_def)

end
